theory Spec2Isabelle
  imports Main "HOL-Library.List_Lexorder"
begin

section \<open>The catalog builder \<^verbatim>\<open>scripts/build_catalog.py\<close>\<close>

text \<open>
  The script reads a workbook with the sheets \<^verbatim>\<open>meta\<close>, \<^verbatim>\<open>songs\<close>, \<^verbatim>\<open>versions\<close> and
  \<^verbatim>\<open>glossary\<close>, validates the rows, builds one dictionary per song, serialises the
  sorted song list, passes the strict versioning gate and writes \<^verbatim>\<open>songs.json\<close> and
  \<^verbatim>\<open>latest.json\<close> to \<^verbatim>\<open>dist/\<close> and \<^verbatim>\<open>docs/\<close>.

  Conventions of the embedding.
  \<^item> A Python \<^verbatim>\<open>str\<close> is a list of Unicode code points (\<open>pystr\<close>); \<open>lit\<close> turns an
    ASCII literal into one. \<^verbatim>\<open>bytes\<close> are Isabelle strings (lists of 8-bit characters).
  \<^item> A worksheet cell is only ever read through \<^verbatim>\<open>_s\<close>, that is through \<^verbatim>\<open>str(v)\<close>; a
    cell is therefore \<open>None\<close> or \<open>Some t\<close> with \<open>t\<close> the text \<^verbatim>\<open>str(v)\<close> of its value.
  \<^item> A Python \<^verbatim>\<open>dict\<close> whose order is serialised is an association list in insertion
    order with distinct keys; a dict that is only looked up is a map.
  \<^item> \<^verbatim>\<open>_fail\<close> raises \<^verbatim>\<open>SystemExit\<close>: every function that may call it returns
    \<open>error + 'a\<close>, and the first \<open>Inl\<close> ends the run. An exception nobody catches is
    \<open>Uncaught\<close>.
  \<^item> Library functions whose definition is not part of the repository
    (\<^verbatim>\<open>str.lower\<close>, \<^verbatim>\<open>int\<close>, \<^verbatim>\<open>str\<close> of a parsed JSON value, \<^verbatim>\<open>json.loads\<close>,
    \<^verbatim>\<open>json.dumps\<close>, \<^verbatim>\<open>hashlib.sha256\<close>) are the fields of a record \<open>pylib\<close> that
    every function using them takes as its first argument; theorems hold for every
    such record. \<^verbatim>\<open>str.strip\<close>, \<^verbatim>\<open>str.split\<close>, \<^verbatim>\<open>sorted\<close> and \<^verbatim>\<open>str\<close> of an integer
    are defined here.
  \<^item> The warning pass (source lines 247 and 270 to 279) and the final summary only
    print; they have no branch that ends the run and feed no output file, and are left
    out.
  \<^item> The workbook is the one \<^verbatim>\<open>load_workbook(INPUT_XLSX, data_only=True)\<close> returned: a
    list of named sheets, each a list of rows. The paths are those of a POSIX system.
    The text of the workbook and of the clock holds no lone surrogate, so serialising
    the song list and the manifest, which are made of that text, returns; the text-mode
    write of \<^verbatim>\<open>latest.json\<close> stores the bytes of the serialised manifest, and writing a
    file succeeds. The old catalog is whatever \<^verbatim>\<open>docs/songs.json\<close> holds: parsing it can
    give a string with a lone surrogate (from the escape of the code point D800, say),
    and serialising that again raises; this is \<open>dumps_error\<close> below.
\<close>

subsection \<open>Strings, cells and JSON values\<close>

type_synonym pystr = "nat list"
type_synonym bytes = string
type_synonym cell = "pystr option"
type_synonym row = "cell list"
type_synonym sheet = "row list"
type_synonym workbook = "(pystr \<times> sheet) list"
type_synonym headers = "pystr \<rightharpoonup> nat"

definition lit :: "string \<Rightarrow> pystr" where
  "lit s = map of_char s"

text \<open>The apostrophe of the f-strings.\<close>

definition apos :: pystr where
  "apos = [39]"

datatype json =
    JNull
  | JBool bool
  | JInt int
  | JFloat pystr \<comment> \<open>a float, named by its JSON text\<close>
  | JStr pystr
  | JArr "json list"
  | JObj "(pystr \<times> json) list"

type_synonym pydict = "(pystr \<times> json) list"

text \<open>An exception: its class name and its text \<^verbatim>\<open>str(e)\<close>.\<close>

datatype exc = Exc pystr pystr

datatype error =
    SystemExit pystr \<comment> \<open>raised by \<^verbatim>\<open>_fail\<close>; the argument is the whole message\<close>
  | Uncaught exc

record pylib =
  str_lower :: "pystr \<Rightarrow> pystr" \<comment> \<open>\<^verbatim>\<open>s.lower()\<close>\<close>
  int_of_str :: "pystr \<Rightarrow> int option" \<comment> \<open>\<^verbatim>\<open>int(s)\<close> of a str; \<open>None\<close> is \<^verbatim>\<open>ValueError\<close>\<close>
  int_of_float :: "pystr \<Rightarrow> int option" \<comment> \<open>\<^verbatim>\<open>int(f)\<close> of a float; \<open>None\<close> for inf and nan\<close>
  int_exc :: "json \<Rightarrow> exc" \<comment> \<open>the exception \<^verbatim>\<open>int(v)\<close> raises when it raises\<close>
  str_of_value :: "json \<Rightarrow> pystr" \<comment> \<open>\<^verbatim>\<open>str(v)\<close> of a float, a list or a dict\<close>
  json_loads :: "bytes \<Rightarrow> exc + json" \<comment> \<open>\<^verbatim>\<open>json.loads(b.decode("utf-8"))\<close>\<close>
  json_dumps :: "json \<Rightarrow> bytes"
    \<comment> \<open>\<^verbatim>\<open>json.dumps(v, ensure_ascii=False, indent=2).encode("utf-8")\<close>, when it returns\<close>
  dumps_error :: "json \<Rightarrow> exc option"
    \<comment> \<open>the exception that expression raises instead (\<^verbatim>\<open>UnicodeEncodeError\<close>), if it raises\<close>
  sha256_hex :: "bytes \<Rightarrow> pystr" \<comment> \<open>\<^verbatim>\<open>hashlib.sha256(b).hexdigest()\<close>\<close>

subsection \<open>String helpers of the Python library\<close>

text \<open>The code points \<^verbatim>\<open>str.isspace\<close> accepts, which \<^verbatim>\<open>str.strip()\<close> removes.\<close>

definition isspace :: "nat \<Rightarrow> bool" where
  "isspace c \<longleftrightarrow>
     (9 \<le> c \<and> c \<le> 13) \<or> (28 \<le> c \<and> c \<le> 32) \<or> c = 133 \<or> c = 160 \<or> c = 5760 \<or>
     (8192 \<le> c \<and> c \<le> 8202) \<or> c = 8232 \<or> c = 8233 \<or> c = 8239 \<or> c = 8287 \<or> c = 12288"

definition strip :: "pystr \<Rightarrow> pystr" where
  "strip t = rev (dropWhile isspace (rev (dropWhile isspace t)))"

text \<open>\<^verbatim>\<open>s.split(sep)\<close> for a one-character separator: always at least one part.\<close>

fun str_split :: "nat \<Rightarrow> pystr \<Rightarrow> pystr list" where
  "str_split sep [] = [[]]"
| "str_split sep (c # cs) =
     (if c = sep then [] # str_split sep cs
      else (case str_split sep cs of [] \<Rightarrow> [[c]] | p # ps \<Rightarrow> (c # p) # ps))"

text \<open>\<^verbatim>\<open>str(n)\<close> of an integer, in decimal.\<close>

fun str_nat :: "nat \<Rightarrow> pystr" where
  "str_nat n = (if n < 10 then [48 + n] else str_nat (n div 10) @ [48 + n mod 10])"

declare str_nat.simps [simp del]

definition str_int :: "int \<Rightarrow> pystr" where
  "str_int i = (if i < 0 then 45 # str_nat (nat (- i)) else str_nat (nat i))"

text \<open>\<^verbatim>\<open>sep.join(parts)\<close>.\<close>

fun str_join :: "pystr \<Rightarrow> pystr list \<Rightarrow> pystr" where
  "str_join sep [] = []"
| "str_join sep [p] = p"
| "str_join sep (p # q # ps) = p @ sep @ str_join sep (q # ps)"

text \<open>\<^verbatim>\<open>d[k] = v\<close> on an insertion-ordered dict: an existing key keeps its place.\<close>

fun dict_set :: "('k \<times> 'v) list \<Rightarrow> 'k \<Rightarrow> 'v \<Rightarrow> ('k \<times> 'v) list" where
  "dict_set [] k v = [(k, v)]"
| "dict_set ((k', v') # d) k v =
     (if k' = k then (k, v) # d else (k', v') # dict_set d k v)"

text \<open>\<^verbatim>\<open>k in d\<close>.\<close>

definition dict_has :: "('k \<times> 'v) list \<Rightarrow> 'k \<Rightarrow> bool" where
  "dict_has d k \<longleftrightarrow> k \<in> set (map fst d)"

subsection \<open>Cell helpers (source lines 22 to 50)\<close>

text \<open>\<^verbatim>\<open>_s\<close>: cell value to trimmed string, \<^verbatim>\<open>None\<close> to the empty string.\<close>

definition py_s :: "cell \<Rightarrow> pystr" where
  "py_s v = (case v of None \<Rightarrow> [] | Some t \<Rightarrow> strip t)"

text \<open>\<^verbatim>\<open>_split_list\<close>: split by \<^verbatim>\<open>;\<close> (code point 59) into trimmed non-empty items.\<close>

definition py_split_list :: "cell \<Rightarrow> pystr list" where
  "py_split_list c =
     (if py_s c = [] then []
      else filter (\<lambda>p. p \<noteq> []) (map strip (str_split 59 (py_s c))))"

text \<open>\<^verbatim>\<open>_opt\<close>: optional string, the empty string becomes \<^verbatim>\<open>None\<close>.\<close>

definition py_opt :: "cell \<Rightarrow> pystr option" where
  "py_opt c = (if py_s c \<noteq> [] then Some (py_s c) else None)"

text \<open>\<^verbatim>\<open>_fail\<close>: raise \<^verbatim>\<open>SystemExit(f"ERROR: {msg}")\<close>.\<close>

definition py_fail :: "pystr \<Rightarrow> error + 'a" where
  "py_fail msg = Inl (SystemExit (lit ''ERROR: '' @ msg))"

subsection \<open>The tabular reader (source lines 68 to 96)\<close>

text \<open>\<^verbatim>\<open>read_meta\<close>: column A is the key, column B the value; a later row with the same
  key wins. \<^verbatim>\<open>row[0]\<close> of an empty row raises \<^verbatim>\<open>IndexError\<close>.\<close>

fun read_meta_rows :: "row list \<Rightarrow> (pystr \<rightharpoonup> pystr) \<Rightarrow> error + (pystr \<rightharpoonup> pystr)" where
  "read_meta_rows [] meta = Inr meta"
| "read_meta_rows ([] # rows) meta =
     Inl (Uncaught (Exc (lit ''IndexError'') (lit ''tuple index out of range'')))"
| "read_meta_rows ((c # cs) # rows) meta =
     read_meta_rows rows
       (if py_s c \<noteq> [] then meta(py_s c \<mapsto> (if cs \<noteq> [] then py_s (hd cs) else [])) else meta)"

definition read_meta :: "sheet \<Rightarrow> error + (pystr \<rightharpoonup> pystr)" where
  "read_meta ws = read_meta_rows ws Map.empty"

text \<open>\<^verbatim>\<open>sheet_headers\<close>: the first row names the columns; a later column with the same
  name wins. \<^verbatim>\<open>next\<close> on a sheet without rows raises \<^verbatim>\<open>StopIteration\<close>.\<close>

fun enum_headers :: "nat \<Rightarrow> row \<Rightarrow> headers \<Rightarrow> headers" where
  "enum_headers idx [] h = h"
| "enum_headers idx (c # cs) h =
     enum_headers (Suc idx) cs (if py_s c \<noteq> [] then h(py_s c \<mapsto> idx) else h)"

definition sheet_headers :: "sheet \<Rightarrow> error + headers" where
  "sheet_headers ws =
     (case ws of
        [] \<Rightarrow> Inl (Uncaught (Exc (lit ''StopIteration'') []))
      | first # _ \<Rightarrow> Inr (enum_headers 0 first Map.empty))"

definition get_cell :: "row \<Rightarrow> headers \<Rightarrow> pystr \<Rightarrow> cell" where
  "get_cell row h name =
     (case h name of
        None \<Rightarrow> None
      | Some idx \<Rightarrow> if idx \<ge> length row then None else row ! idx)"

text \<open>The test \<^verbatim>\<open>all((_s(c) == "" for c in row))\<close> that skips an empty row.\<close>

definition blank_row :: "row \<Rightarrow> bool" where
  "blank_row row \<longleftrightarrow> list_all (\<lambda>c. py_s c = []) row"

subsection \<open>The row validators (source lines 99 to 170)\<close>

text \<open>The default of \<^verbatim>\<open>languageTag\<close>, a Cyrillic word of seven letters.\<close>

definition default_language_tag :: pystr where
  "default_language_tag = [1088, 1091, 1089, 1089, 1082, 1080, 1081]"

definition build_song_dict :: "row \<Rightarrow> headers \<Rightarrow> error + pydict" where
  "build_song_dict row h =
     (let song_id = py_s (get_cell row h (lit ''id''));
          title = py_s (get_cell row h (lit ''title''));
          hub = py_s (get_cell row h (lit ''hub''));
          lyrics = py_s (get_cell row h (lit ''lyrics''))
      in
      if song_id = [] then py_fail (lit ''songs: empty id'')
      else if title = [] then py_fail (lit ''songs: empty title for id='' @ song_id)
      else if hub = [] then py_fail (lit ''songs: empty hub for id='' @ song_id)
      else if lyrics = [] then py_fail (lit ''songs: empty lyrics for id='' @ song_id)
      else Inr
        [(lit ''id'', JStr song_id),
         (lit ''title'', JStr title),
         (lit ''altTitles'', JStr (py_s (get_cell row h (lit ''altTitles'')))),
         (lit ''hub'', JStr hub),
         (lit ''regionDetail'', JStr (py_s (get_cell row h (lit ''regionDetail'')))),
         (lit ''genre'', JStr (py_s (get_cell row h (lit ''genre'')))),
         (lit ''themes'', JArr (map JStr (py_split_list (get_cell row h (lit ''themes''))))),
         (lit ''cossackHost'', JStr (py_s (get_cell row h (lit ''cossackHost'')))),
         (lit ''languageTag'',
            JStr (if py_s (get_cell row h (lit ''languageTag'')) \<noteq> []
                  then py_s (get_cell row h (lit ''languageTag''))
                  else default_language_tag)),
         (lit ''contextShort'', JStr (py_s (get_cell row h (lit ''contextShort'')))),
         (lit ''lyrics'', JStr lyrics),
         (lit ''glossary'', JArr []),
         (lit ''sourceNote'', JStr (py_s (get_cell row h (lit ''sourceNote'')))),
         (lit ''audioUrl'', JStr (py_s (get_cell row h (lit ''audioUrl'')))),
         (lit ''minusUrl'', JStr (py_s (get_cell row h (lit ''minusUrl'')))),
         (lit ''videoUrl'', JStr (py_s (get_cell row h (lit ''videoUrl'')))),
         (lit ''rightsStatus'',
            JStr (if py_s (get_cell row h (lit ''rightsStatus'')) \<noteq> []
                  then py_s (get_cell row h (lit ''rightsStatus''))
                  else lit ''NONE'')),
         (lit ''externalLinks'',
            JArr (map JStr (py_split_list (get_cell row h (lit ''externalLinks''))))),
         (lit ''versions'', JArr [])])"

text \<open>The loop of \<^verbatim>\<open>build_version_dict\<close> over the optional keys: a key is set only when
  \<^verbatim>\<open>_opt\<close> of its cell is not \<^verbatim>\<open>None\<close>.\<close>

definition version_opt_keys :: "pystr list" where
  "version_opt_keys =
     [lit ''title'', lit ''lyrics'', lit ''sourceNote'', lit ''audioUrl'', lit ''minusUrl'',
      lit ''videoUrl'']"

fun version_opt_loop :: "row \<Rightarrow> headers \<Rightarrow> pystr list \<Rightarrow> pydict \<Rightarrow> pydict" where
  "version_opt_loop row h [] ver = ver"
| "version_opt_loop row h (k # ks) ver =
     version_opt_loop row h ks
       (case py_opt (get_cell row h k) of
          None \<Rightarrow> ver
        | Some v \<Rightarrow> dict_set ver k (JStr v))"

definition build_version_dict :: "row \<Rightarrow> headers \<Rightarrow> error + (pystr \<times> pydict)" where
  "build_version_dict row h =
     (let song_id = py_s (get_cell row h (lit ''songId''));
          ver_id = py_s (get_cell row h (lit ''id''))
      in
      if song_id = [] then py_fail (lit ''versions: empty songId'')
      else if ver_id = [] then py_fail (lit ''versions: empty id for songId='' @ song_id)
      else Inr (song_id, version_opt_loop row h version_opt_keys [(lit ''id'', JStr ver_id)]))"

definition build_glossary_item :: "row \<Rightarrow> headers \<Rightarrow> error + (pystr \<times> pydict)" where
  "build_glossary_item row h =
     (let song_id = py_s (get_cell row h (lit ''songId''));
          term = py_s (get_cell row h (lit ''term''));
          definition = py_s (get_cell row h (lit ''definition''))
      in
      if song_id = [] then py_fail (lit ''glossary: empty songId'')
      else if term = [] then py_fail (lit ''glossary: empty term for songId='' @ song_id)
      else if definition = [] then
        py_fail (lit ''glossary: empty definition for songId='' @ song_id @ lit '', term='' @ term)
      else Inr (song_id, [(lit ''term'', JStr term), (lit ''definition'', JStr definition)]))"

subsection \<open>The body of \<^verbatim>\<open>main\<close>: reading and aggregating (source lines 174 to 282)\<close>

type_synonym songs_by_id = "(pystr \<times> pydict) list"

definition and_then :: "error + 'a \<Rightarrow> ('a \<Rightarrow> error + 'b) \<Rightarrow> error + 'b" where
  "and_then r f = (case r of Inl e \<Rightarrow> Inl e | Inr x \<Rightarrow> f x)"

definition key_error :: "pystr \<Rightarrow> error" where
  "key_error k = Uncaught (Exc (lit ''KeyError'') (apos @ k @ apos))"

text \<open>The loop over the four required sheet names (lines 180 to 182).\<close>

fun check_sheets :: "workbook \<Rightarrow> pystr list \<Rightarrow> error + unit" where
  "check_sheets wb [] = Inr ()"
| "check_sheets wb (sheet # rest) =
     (if \<not> dict_has wb sheet
      then py_fail (lit ''Missing sheet '' @ apos @ sheet @ apos @ lit '' in input/istoki.xlsx'')
      else check_sheets wb rest)"

text \<open>\<^verbatim>\<open>wb[name]\<close>.\<close>

definition wb_sheet :: "workbook \<Rightarrow> pystr \<Rightarrow> error + sheet" where
  "wb_sheet wb name = (case map_of wb name of None \<Rightarrow> Inl (key_error name) | Some ws \<Rightarrow> Inr ws)"

text \<open>Lines 184 to 193: the catalog version and the base media URL.\<close>

definition read_catalog_meta :: "pylib \<Rightarrow> sheet \<Rightarrow> error + (int \<times> pystr)" where
  "read_catalog_meta L ws_meta =
     and_then (read_meta ws_meta) (\<lambda>meta.
       case meta (lit ''catalogVersion'') of
         None \<Rightarrow> py_fail (lit ''meta: missing catalogVersion'')
       | Some cv \<Rightarrow>
           (case int_of_str L cv of
              None \<Rightarrow> py_fail (lit ''meta: catalogVersion is not int: '' @ cv)
            | Some catalog_version \<Rightarrow>
                Inr (catalog_version,
                     strip (case meta (lit ''baseMediaUrl'') of None \<Rightarrow> [] | Some b \<Rightarrow> b))))"

text \<open>The loops \<^verbatim>\<open>for col in [...]: if col not in h: _fail(...)\<close> of the songs and
  the glossary sheet; \<open>sheet_name\<close> is the prefix of the message.\<close>

fun check_cols :: "pystr \<Rightarrow> headers \<Rightarrow> pystr list \<Rightarrow> error + unit" where
  "check_cols sheet_name h [] = Inr ()"
| "check_cols sheet_name h (col # cols) =
     (if h col = None
      then py_fail (sheet_name @ lit '': missing required column '' @ apos @ col @ apos)
      else check_cols sheet_name h cols)"

text \<open>Lines 204 to 213. \<open>row_idx\<close> is the counter of \<^verbatim>\<open>enumerate(..., start=2)\<close>; a
  skipped row still advances it.\<close>

fun songs_loop :: "headers \<Rightarrow> nat \<Rightarrow> row list \<Rightarrow> songs_by_id \<Rightarrow> error + songs_by_id" where
  "songs_loop hs row_idx [] songs_by_id = Inr songs_by_id"
| "songs_loop hs row_idx (row # rows) songs_by_id =
     (if blank_row row then songs_loop hs (Suc row_idx) rows songs_by_id
      else
        (case build_song_dict row hs of
           Inl e \<Rightarrow> Inl e
         | Inr song \<Rightarrow>
             (case map_of song (lit ''id'') of
                Some (JStr song_id) \<Rightarrow>
                  if dict_has songs_by_id song_id
                  then py_fail (lit ''songs: duplicate id '' @ apos @ song_id @ apos @
                                lit '' (row '' @ str_nat row_idx @ lit '')'')
                  else songs_loop hs (Suc row_idx) rows (dict_set songs_by_id song_id song)
              | _ \<Rightarrow> Inl (key_error (lit ''id'')))))"

definition songs_stage :: "sheet \<Rightarrow> error + songs_by_id" where
  "songs_stage ws_songs =
     and_then (sheet_headers ws_songs) (\<lambda>hs.
     and_then (check_cols (lit ''songs'') hs
                 [lit ''id'', lit ''title'', lit ''hub'', lit ''lyrics'']) (\<lambda>_.
     and_then (songs_loop hs 2 (drop 1 ws_songs) []) (\<lambda>songs_by_id.
       if songs_by_id = [] then py_fail (lit ''songs: no songs found'') else Inr songs_by_id)))"

text \<open>\<^verbatim>\<open>songs_by_id[song_id][key].append(item)\<close>. Each song owns its two lists, so the
  append changes this one song only.\<close>

definition append_child :: "songs_by_id \<Rightarrow> pystr \<Rightarrow> pystr \<Rightarrow> json \<Rightarrow> error + songs_by_id" where
  "append_child songs_by_id song_id key item =
     (case map_of songs_by_id song_id of
        None \<Rightarrow> Inl (key_error song_id)
      | Some song \<Rightarrow>
          (case map_of song key of
             Some (JArr xs) \<Rightarrow>
               Inr (dict_set songs_by_id song_id (dict_set song key (JArr (xs @ [item]))))
           | _ \<Rightarrow> Inl (key_error key)))"

text \<open>\<^verbatim>\<open>d.setdefault(k, set())\<close>, read as the set it returns.\<close>

definition seen_of :: "(pystr \<rightharpoonup> pystr set) \<Rightarrow> pystr \<Rightarrow> pystr set" where
  "seen_of d k = (case d k of None \<Rightarrow> {} | Some s \<Rightarrow> s)"

text \<open>Lines 225 to 238.\<close>

fun versions_loop ::
  "headers \<Rightarrow> nat \<Rightarrow> row list \<Rightarrow> songs_by_id \<Rightarrow> (pystr \<rightharpoonup> pystr set) \<Rightarrow> error + songs_by_id"
where
  "versions_loop hv row_idx [] songs_by_id version_ids_per_song = Inr songs_by_id"
| "versions_loop hv row_idx (row # rows) songs_by_id version_ids_per_song =
     (if blank_row row then versions_loop hv (Suc row_idx) rows songs_by_id version_ids_per_song
      else
        (case build_version_dict row hv of
           Inl e \<Rightarrow> Inl e
         | Inr (song_id, ver) \<Rightarrow>
             if \<not> dict_has songs_by_id song_id
             then py_fail (lit ''versions: unknown songId '' @ apos @ song_id @ apos @
                           lit '' (row '' @ str_nat row_idx @ lit '')'')
             else
               (case map_of ver (lit ''id'') of
                  Some (JStr ver_id) \<Rightarrow>
                    if ver_id \<in> seen_of version_ids_per_song song_id
                    then py_fail (lit ''versions: duplicate version id '' @ apos @ ver_id @ apos @
                                  lit '' for songId='' @ song_id @
                                  lit '' (row '' @ str_nat row_idx @ lit '')'')
                    else
                      (case append_child songs_by_id song_id (lit ''versions'') (JObj ver) of
                         Inl e \<Rightarrow> Inl e
                       | Inr songs_by_id' \<Rightarrow>
                           versions_loop hv (Suc row_idx) rows songs_by_id'
                             (version_ids_per_song
                                (song_id \<mapsto> insert ver_id (seen_of version_ids_per_song song_id))))
                | _ \<Rightarrow> Inl (key_error (lit ''id'')))))"

definition versions_stage :: "sheet \<Rightarrow> songs_by_id \<Rightarrow> error + songs_by_id" where
  "versions_stage ws_versions songs_by_id =
     and_then (sheet_headers ws_versions) (\<lambda>hv.
       if hv (lit ''songId'') = None \<or> hv (lit ''id'') = None
       then py_fail (lit ''versions: required columns are '' @ apos @ lit ''songId'' @ apos @
                     lit '' and '' @ apos @ lit ''id'' @ apos)
       else versions_loop hv 2 (drop 1 ws_versions) songs_by_id Map.empty)"

text \<open>Lines 250 to 268.\<close>

fun glossary_loop ::
  "pylib \<Rightarrow> headers \<Rightarrow> nat \<Rightarrow> row list \<Rightarrow> songs_by_id \<Rightarrow> (pystr \<rightharpoonup> pystr set) \<Rightarrow>
   error + songs_by_id"
where
  "glossary_loop L hg row_idx [] songs_by_id terms_per_song = Inr songs_by_id"
| "glossary_loop L hg row_idx (row # rows) songs_by_id terms_per_song =
     (if blank_row row then glossary_loop L hg (Suc row_idx) rows songs_by_id terms_per_song
      else
        (case build_glossary_item row hg of
           Inl e \<Rightarrow> Inl e
         | Inr (song_id, item) \<Rightarrow>
             if \<not> dict_has songs_by_id song_id
             then py_fail (lit ''glossary: unknown songId '' @ apos @ song_id @ apos @
                           lit '' (row '' @ str_nat row_idx @ lit '')'')
             else
               (case map_of item (lit ''term'') of
                  Some (JStr term) \<Rightarrow>
                    if str_lower L (strip term) \<in> seen_of terms_per_song song_id
                    then py_fail (lit ''glossary: duplicate term '' @ apos @ term @ apos @
                                  lit '' within songId='' @ song_id @
                                  lit '' (row '' @ str_nat row_idx @ lit '')'')
                    else
                      (case append_child songs_by_id song_id (lit ''glossary'') (JObj item) of
                         Inl e \<Rightarrow> Inl e
                       | Inr songs_by_id' \<Rightarrow>
                           glossary_loop L hg (Suc row_idx) rows songs_by_id'
                             (terms_per_song
                                (song_id \<mapsto> insert (str_lower L (strip term))
                                               (seen_of terms_per_song song_id))))
                | _ \<Rightarrow> Inl (key_error (lit ''term'')))))"

definition glossary_stage :: "pylib \<Rightarrow> sheet \<Rightarrow> songs_by_id \<Rightarrow> error + songs_by_id" where
  "glossary_stage L ws_glossary songs_by_id =
     and_then (sheet_headers ws_glossary) (\<lambda>hg.
     and_then (check_cols (lit ''glossary'') hg
                 [lit ''songId'', lit ''term'', lit ''definition'']) (\<lambda>_.
       glossary_loop L hg 2 (drop 1 ws_glossary) songs_by_id Map.empty))"

text \<open>Line 282: \<^verbatim>\<open>[songs_by_id[k] for k in sorted(songs_by_id.keys())]\<close>. Python orders
  strings by code point, lexicographically, as the order on lists does here.\<close>

definition sorted_songs :: "songs_by_id \<Rightarrow> pydict list" where
  "sorted_songs songs_by_id = List.map_filter (map_of songs_by_id) (sort (map fst songs_by_id))"

text \<open>Lines 174 to 282 together. The input is \<open>None\<close> when \<^verbatim>\<open>input/istoki.xlsx\<close> does
  not exist. The result is the catalog version, the base media URL and the sorted list
  of song dictionaries.\<close>

definition build_songs :: "pylib \<Rightarrow> workbook option \<Rightarrow> error + (int \<times> pystr \<times> pydict list)" where
  "build_songs L inp =
     (case inp of
        None \<Rightarrow> py_fail (lit ''Input file not found: input/istoki.xlsx'')
      | Some wb \<Rightarrow>
          and_then (check_sheets wb [lit ''meta'', lit ''songs'', lit ''versions'', lit ''glossary''])
            (\<lambda>_.
          and_then (wb_sheet wb (lit ''meta'')) (\<lambda>ws_meta.
          and_then (read_catalog_meta L ws_meta) (\<lambda>(catalog_version, base_media_url).
          and_then (wb_sheet wb (lit ''songs'')) (\<lambda>ws_songs.
          and_then (songs_stage ws_songs) (\<lambda>songs_by_id.
          and_then (wb_sheet wb (lit ''versions'')) (\<lambda>ws_versions.
          and_then (versions_stage ws_versions songs_by_id) (\<lambda>with_versions.
          and_then (wb_sheet wb (lit ''glossary'')) (\<lambda>ws_glossary.
          and_then (glossary_stage L ws_glossary with_versions) (\<lambda>with_glossary.
            Inr (catalog_version, base_media_url, sorted_songs with_glossary)))))))))))"

subsection \<open>The strict versioning gate (source lines 287 to 324)\<close>

record env =
  strict_versioning :: "pystr option" \<comment> \<open>\<^verbatim>\<open>os.getenv("STRICT_VERSIONING")\<close>\<close>
  now_iso_utc :: pystr \<comment> \<open>what \<^verbatim>\<open>_now_iso_utc()\<close> returns in this run\<close>

text \<open>The four files the run touches. A slot is what \<^verbatim>\<open>_read_file_bytes\<close> returns for the
  path: \<open>None\<close> when the file does not exist.\<close>

record files =
  dist_songs :: "bytes option"
  dist_latest :: "bytes option"
  docs_songs :: "bytes option"
  docs_latest :: "bytes option"

definition strict_mode :: "pylib \<Rightarrow> env \<Rightarrow> bool" where
  "strict_mode L E \<longleftrightarrow>
     str_lower L (strip (case strict_versioning E of None \<Rightarrow> [] | Some s \<Rightarrow> s))
       \<in> set [lit ''1'', lit ''true'', lit ''yes'', lit ''on'']"

text \<open>\<^verbatim>\<open>int(v)\<close> and \<^verbatim>\<open>str(v)\<close> of a value \<^verbatim>\<open>json.loads\<close> returned.\<close>

definition py_int :: "pylib \<Rightarrow> json \<Rightarrow> exc + int" where
  "py_int L v =
     (case v of
        JInt n \<Rightarrow> Inr n
      | JBool b \<Rightarrow> Inr (if b then 1 else 0)
      | JStr s \<Rightarrow> (case int_of_str L s of Some n \<Rightarrow> Inr n | None \<Rightarrow> Inl (int_exc L v))
      | JFloat f \<Rightarrow> (case int_of_float L f of Some n \<Rightarrow> Inr n | None \<Rightarrow> Inl (int_exc L v))
      | _ \<Rightarrow> Inl (int_exc L v))"

definition py_str :: "pylib \<Rightarrow> json \<Rightarrow> pystr" where
  "py_str L v =
     (case v of
        JStr s \<Rightarrow> s
      | JInt n \<Rightarrow> str_int n
      | JBool b \<Rightarrow> (if b then lit ''True'' else lit ''False'')
      | JNull \<Rightarrow> lit ''None''
      | _ \<Rightarrow> str_of_value L v)"

definition type_name :: "json \<Rightarrow> pystr" where
  "type_name v =
     (case v of
        JNull \<Rightarrow> lit ''NoneType'' | JBool _ \<Rightarrow> lit ''bool'' | JInt _ \<Rightarrow> lit ''int''
      | JFloat _ \<Rightarrow> lit ''float'' | JStr _ \<Rightarrow> lit ''str'' | JArr _ \<Rightarrow> lit ''list''
      | JObj _ \<Rightarrow> lit ''dict'')"

text \<open>The two handlers \<^verbatim>\<open>except Exception as e: _fail(f"...: {e}")\<close>.\<close>

definition fail_latest :: "exc \<Rightarrow> error + 'a" where
  "fail_latest e =
     (case e of Exc cls txt \<Rightarrow>
        py_fail (lit ''STRICT_VERSIONING: cannot parse existing docs/latest.json: '' @ txt))"

definition fail_songs :: "exc \<Rightarrow> error + 'a" where
  "fail_songs e =
     (case e of Exc cls txt \<Rightarrow>
        py_fail (lit ''STRICT_VERSIONING: cannot parse existing docs/songs.json: '' @ txt))"

text \<open>Lines 294 to 299. \<^verbatim>\<open>old_manifest.get\<close> exists only on a dict: on any other parsed
  value the attribute lookup raises \<^verbatim>\<open>AttributeError\<close>, which the handler catches.\<close>

definition parse_old_manifest :: "pylib \<Rightarrow> bytes \<Rightarrow> error + (int \<times> pystr)" where
  "parse_old_manifest L old_latest_bytes =
     (case json_loads L old_latest_bytes of
        Inl e \<Rightarrow> fail_latest e
      | Inr (JObj old_manifest) \<Rightarrow>
          (case py_int L (case map_of old_manifest (lit ''catalogVersion'') of
                            None \<Rightarrow> JInt 0 | Some v \<Rightarrow> v) of
             Inl e \<Rightarrow> fail_latest e
           | Inr old_version \<Rightarrow>
               Inr (old_version,
                    strip (py_str L (case map_of old_manifest (lit ''baseMediaUrl'') of
                                       None \<Rightarrow> JStr [] | Some v \<Rightarrow> v))))
      | Inr v \<Rightarrow>
          fail_latest (Exc (lit ''AttributeError'')
            (apos @ type_name v @ apos @ lit '' object has no attribute '' @ apos @ lit ''get'' @ apos)))"

text \<open>Lines 301 to 309. Parsing the old catalog and serialising it again are inside one
  \<^verbatim>\<open>try\<close>: an exception of either is caught and ends the run.\<close>

definition songs_changed :: "pylib \<Rightarrow> bytes option \<Rightarrow> bytes \<Rightarrow> error + bool" where
  "songs_changed L old_songs_bytes new_songs_json_bytes =
     (case old_songs_bytes of
        None \<Rightarrow> Inr False
      | Some b \<Rightarrow>
          (case json_loads L b of
             Inl e \<Rightarrow> fail_songs e
           | Inr old_obj \<Rightarrow>
               (case dumps_error L old_obj of
                  Some e \<Rightarrow> fail_songs e
                | None \<Rightarrow>
                    Inr (sha256_hex L (json_dumps L old_obj) \<noteq>
                         sha256_hex L new_songs_json_bytes))))"

text \<open>Lines 314 to 324: the message of the gate.\<close>

definition gate_details :: "bool \<Rightarrow> bool \<Rightarrow> pystr \<Rightarrow> pystr \<Rightarrow> pystr list" where
  "gate_details songs_ch base_media_ch old_base_media_url base_media_url =
     (if songs_ch then [lit ''songs.json changed''] else []) @
     (if base_media_ch
      then [lit ''baseMediaUrl changed ('' @ apos @ old_base_media_url @ apos @ lit '' -> '' @
            apos @ strip base_media_url @ apos @ lit '')'']
      else [])"

definition gate_advice :: pystr where
  "gate_advice =
     [1054, 1090, 1082, 1088, 1086, 1081] @ lit '' input/istoki.xlsx '' @ [8594] @
     lit '' sheet meta '' @ [8594] @ lit '' catalogVersion '' @ [1080] @ lit '' '' @
     [1091, 1074, 1077, 1083, 1080, 1095, 1100] @ lit '' ('' @
     [1085, 1072, 1087, 1088, 1080, 1084, 1077, 1088] @ lit '' +1), '' @
     [1079, 1072, 1090, 1077, 1084] @ lit '' commit/push.''"

definition gate_message :: "int \<Rightarrow> int \<Rightarrow> pystr list \<Rightarrow> pystr" where
  "gate_message old_version catalog_version details =
     lit ''STRICT_VERSIONING: content changed but catalogVersion was not bumped. '' @
     lit ''old='' @ str_int old_version @ lit '', new='' @ str_int catalog_version @ lit ''. '' @
     [1055, 1088, 1080, 1095, 1080, 1085, 1072] @ lit '': '' @ str_join (lit '', '') details @
     lit ''. '' @ gate_advice"

text \<open>Lines 288 to 324. The gate reads \<^verbatim>\<open>docs/latest.json\<close> and \<^verbatim>\<open>docs/songs.json\<close> as
  they are before the run writes anything.\<close>

definition strict_gate :: "pylib \<Rightarrow> env \<Rightarrow> files \<Rightarrow> bytes \<Rightarrow> int \<Rightarrow> pystr \<Rightarrow> error + unit" where
  "strict_gate L E fs new_songs_json_bytes catalog_version base_media_url =
     (case docs_latest fs of
        None \<Rightarrow> Inr ()
      | Some old_latest_bytes \<Rightarrow>
          if \<not> strict_mode L E then Inr ()
          else
            and_then (parse_old_manifest L old_latest_bytes) (\<lambda>(old_version, old_base_media_url).
            and_then (songs_changed L (docs_songs fs) new_songs_json_bytes) (\<lambda>songs_ch.
              if (songs_ch \<or> old_base_media_url \<noteq> strip base_media_url) \<and>
                 catalog_version \<le> old_version
              then py_fail (gate_message old_version catalog_version
                     (gate_details songs_ch (old_base_media_url \<noteq> strip base_media_url)
                        old_base_media_url base_media_url))
              else Inr ())))"

subsection \<open>Writing the output and \<^verbatim>\<open>main\<close> (source lines 326 to 348)\<close>

definition songs_url :: pystr where
  "songs_url = lit ''https://aleyakim.github.io/istoki-catalog/songs.json''"

definition manifest :: "int \<Rightarrow> pystr \<Rightarrow> pystr \<Rightarrow> pydict" where
  "manifest catalog_version published_at base_media_url =
     [(lit ''catalogVersion'', JInt catalog_version),
      (lit ''publishedAt'', JStr published_at),
      (lit ''songsUrl'', JStr songs_url),
      (lit ''baseMediaUrl'', JStr base_media_url)]"

text \<open>The two writes into \<^verbatim>\<open>dist/\<close> and the two copies into \<^verbatim>\<open>docs/\<close>, in the order of
  the source.\<close>

definition write_outputs :: "pylib \<Rightarrow> env \<Rightarrow> files \<Rightarrow> bytes \<Rightarrow> int \<Rightarrow> pystr \<Rightarrow> files" where
  "write_outputs L E fs new_songs_json_bytes catalog_version base_media_url =
     (let fs1 = fs\<lparr>dist_songs := Some new_songs_json_bytes\<rparr>;
          fs2 = fs1\<lparr>dist_latest :=
                  Some (json_dumps L (JObj (manifest catalog_version (now_iso_utc E) base_media_url)))\<rparr>;
          fs3 = fs2\<lparr>docs_songs := dist_songs fs2\<rparr>
      in fs3\<lparr>docs_latest := dist_latest fs3\<rparr>)"

text \<open>A run: the outcome and the file system it leaves.\<close>

definition main :: "pylib \<Rightarrow> env \<Rightarrow> workbook option \<Rightarrow> files \<Rightarrow> (error + unit) \<times> files" where
  "main L E inp fs =
     (case build_songs L inp of
        Inl e \<Rightarrow> (Inl e, fs)
      | Inr (catalog_version, base_media_url, songs) \<Rightarrow>
          (case strict_gate L E fs (json_dumps L (JArr (map JObj songs)))
                  catalog_version base_media_url of
             Inl e \<Rightarrow> (Inl e, fs)
           | Inr _ \<Rightarrow>
               (Inr (),
                write_outputs L E fs (json_dumps L (JArr (map JObj songs)))
                  catalog_version base_media_url)))"

text \<open>The status of the process: \<^verbatim>\<open>SystemExit\<close> with a message and an uncaught exception
  both end it with status 1.\<close>

definition exit_status :: "error + unit \<Rightarrow> nat" where
  "exit_status r = (case r of Inl _ \<Rightarrow> 1 | Inr _ \<Rightarrow> 0)"

subsection \<open>Notions used to state the properties\<close>

text \<open>A cell is blank when it is empty or holds white space only.\<close>

definition blank_cell :: "cell \<Rightarrow> bool" where
  "blank_cell c \<longleftrightarrow> (case c of None \<Rightarrow> True | Some t \<Rightarrow> list_all isspace t)"

text \<open>\<open>v\<close> is the text \<open>t\<close> without the white space at its two ends: \<open>t\<close> is \<open>v\<close> between
  two runs of white space, and \<open>v\<close> neither starts nor ends with white space.\<close>

definition trimmed_of :: "pystr \<Rightarrow> pystr \<Rightarrow> bool" where
  "trimmed_of t v \<longleftrightarrow>
     (\<exists>l r. t = l @ v @ r \<and> list_all isspace l \<and> list_all isspace r) \<and>
     (v = [] \<or> \<not> isspace (hd v) \<and> \<not> isspace (last v))"

text \<open>What a record holds for a cell: the default when the cell is blank, and otherwise
  the text of the cell without the white space at its two ends.\<close>

definition cell_value :: "cell \<Rightarrow> pystr \<Rightarrow> pystr \<Rightarrow> bool" where
  "cell_value c dflt v \<longleftrightarrow>
     (case c of
        None \<Rightarrow> v = dflt
      | Some t \<Rightarrow> if list_all isspace t then v = dflt else trimmed_of t v)"

text \<open>The id a song dictionary carries.\<close>

definition song_id_of :: "pydict \<Rightarrow> pystr" where
  "song_id_of song = (case map_of song (lit ''id'') of Some (JStr i) \<Rightarrow> i | _ \<Rightarrow> [])"

text \<open>The ids of the non-empty rows of the songs sheet, in sheet order.\<close>

definition row_song_ids :: "headers \<Rightarrow> row list \<Rightarrow> pystr list" where
  "row_song_ids hs rows =
     map (\<lambda>row. py_s (get_cell row hs (lit ''id''))) (filter (\<lambda>row. \<not> blank_row row) rows)"

text \<open>The song dictionary \<open>d\<close> with id \<open>i\<close> comes from a row of the songs sheet.\<close>

definition from_row :: "headers \<Rightarrow> row list \<Rightarrow> pystr \<Rightarrow> pydict \<Rightarrow> bool" where
  "from_row hs rows i d \<longleftrightarrow>
     (\<exists>row \<in> set rows. \<not> blank_row row \<and> build_song_dict row hs = Inr d \<and>
        i = py_s (get_cell row hs (lit ''id'')))"

text \<open>The version records, and the glossary items, that the rows of a sheet give for the
  song \<open>i\<close>, in sheet order.\<close>

definition version_children :: "headers \<Rightarrow> pystr \<Rightarrow> row list \<Rightarrow> json list" where
  "version_children hv i rows =
     List.map_filter
       (\<lambda>row. if blank_row row then None
              else (case build_version_dict row hv of
                      Inr (song_id, ver) \<Rightarrow> if song_id = i then Some (JObj ver) else None
                    | Inl _ \<Rightarrow> None))
       rows"

definition glossary_children :: "headers \<Rightarrow> pystr \<Rightarrow> row list \<Rightarrow> json list" where
  "glossary_children hg i rows =
     List.map_filter
       (\<lambda>row. if blank_row row then None
              else (case build_glossary_item row hg of
                      Inr (song_id, item) \<Rightarrow> if song_id = i then Some (JObj item) else None
                    | Inl _ \<Rightarrow> None))
       rows"

text \<open>A dictionary after \<open>items\<close> have been appended to the list it holds under \<open>key\<close>.\<close>

definition extend_list :: "pydict \<Rightarrow> pystr \<Rightarrow> json list \<Rightarrow> pydict" where
  "extend_list d key items =
     (case map_of d key of
        Some (JArr xs) \<Rightarrow> dict_set d key (JArr (xs @ items))
      | _ \<Rightarrow> d)"

text \<open>The keys of a song record, in the order of the dict literal of
  \<^verbatim>\<open>build_song_dict\<close>, and those of them whose cell is copied as it is.\<close>

definition song_keys :: "pystr list" where
  "song_keys =
     [lit ''id'', lit ''title'', lit ''altTitles'', lit ''hub'', lit ''regionDetail'',
      lit ''genre'', lit ''themes'', lit ''cossackHost'', lit ''languageTag'',
      lit ''contextShort'', lit ''lyrics'', lit ''glossary'', lit ''sourceNote'',
      lit ''audioUrl'', lit ''minusUrl'', lit ''videoUrl'', lit ''rightsStatus'',
      lit ''externalLinks'', lit ''versions'']"

definition copied_keys :: "pystr list" where
  "copied_keys =
     [lit ''id'', lit ''title'', lit ''altTitles'', lit ''hub'', lit ''regionDetail'',
      lit ''genre'', lit ''cossackHost'', lit ''contextShort'', lit ''lyrics'',
      lit ''sourceNote'', lit ''audioUrl'', lit ''minusUrl'', lit ''videoUrl'']"

text \<open>The previous catalog, parsed and serialised again: \<open>old_norm\<close> is its canonical bytes,
  or \<open>None\<close> when \<^verbatim>\<open>docs/songs.json\<close> does not exist.\<close>

definition previous_catalog :: "pylib \<Rightarrow> files \<Rightarrow> bytes option \<Rightarrow> bool" where
  "previous_catalog L fs old_norm \<longleftrightarrow>
     (case docs_songs fs of
        None \<Rightarrow> old_norm = None
      | Some b \<Rightarrow>
          (case json_loads L b of
             Inl _ \<Rightarrow> False
           | Inr old_obj \<Rightarrow> dumps_error L old_obj = None \<and> old_norm = Some (json_dumps L old_obj)))"

text \<open>A message names no row when it holds no decimal digit.\<close>

definition has_digit :: "pystr \<Rightarrow> bool" where
  "has_digit s \<longleftrightarrow> list_ex (\<lambda>c. 48 \<le> c \<and> c \<le> 57) s"

subsection \<open>A sample library and sample inputs\<close>

text \<open>
  One inhabitant of \<open>pylib\<close>, on which the functions above can be run: lower-casing and
  integer parsing for ASCII, a compact serialiser that refuses a lone surrogate, a parser
  that inverts the serialiser on six documents (\<^verbatim>\<open>{}\<close>, \<^verbatim>\<open>[]\<close>, the two files a run on
  the sample workbook writes and two more manifests) and reads one list with an escaped
  lone surrogate, and the identity as digest. The examples below run on it; the general theorems hold for every
  library.
\<close>

definition ascii_lower :: "pystr \<Rightarrow> pystr" where
  "ascii_lower s = map (\<lambda>c. if 65 \<le> c \<and> c \<le> 90 then c + 32 else c) s"

fun digits_nat :: "pystr \<Rightarrow> nat \<Rightarrow> nat option" where
  "digits_nat [] acc = Some acc"
| "digits_nat (c # cs) acc =
     (if 48 \<le> c \<and> c \<le> 57 then digits_nat cs (10 * acc + (c - 48)) else None)"

definition ascii_int :: "pystr \<Rightarrow> int option" where
  "ascii_int s =
     (case s of
        [] \<Rightarrow> None
      | c # cs \<Rightarrow>
          if c = 45 then (if cs = [] then None else map_option (\<lambda>n. - int n) (digits_nat cs 0))
          else map_option int (digits_nat s 0))"

definition to_bytes :: "pystr \<Rightarrow> bytes" where
  "to_bytes s = map char_of s"

fun bytes_join :: "bytes list \<Rightarrow> bytes" where
  "bytes_join [] = []"
| "bytes_join [p] = p"
| "bytes_join (p # q # ps) = p @ '','' @ bytes_join (q # ps)"

primrec compact_dumps :: "json \<Rightarrow> bytes" where
  "compact_dumps JNull = ''null''"
| "compact_dumps (JBool b) = (if b then ''true'' else ''false'')"
| "compact_dumps (JInt n) = to_bytes (str_int n)"
| "compact_dumps (JFloat t) = to_bytes t"
| "compact_dumps (JStr s) = [CHR 0x22] @ to_bytes s @ [CHR 0x22]"
| "compact_dumps (JArr xs) = ''['' @ bytes_join (map compact_dumps xs) @ '']''"
| "compact_dumps (JObj kvs) =
     ''{'' @
     bytes_join (map (\<lambda>kv. [CHR 0x22] @ to_bytes (fst kv) @ [CHR 0x22] @ '':'' @ snd kv)
                   (map (map_prod id compact_dumps) kvs)) @
     ''}''"

text \<open>A value with a code point between D800 and DFFF in one of its strings cannot be
  encoded as UTF-8.\<close>

definition surrogate_in :: "pystr \<Rightarrow> bool" where
  "surrogate_in s \<longleftrightarrow> list_ex (\<lambda>c. 55296 \<le> c \<and> c \<le> 57343) s"

primrec lone_surrogate :: "json \<Rightarrow> bool" where
  "lone_surrogate JNull = False"
| "lone_surrogate (JBool b) = False"
| "lone_surrogate (JInt n) = False"
| "lone_surrogate (JFloat t) = False"
| "lone_surrogate (JStr s) = surrogate_in s"
| "lone_surrogate (JArr xs) = list_ex (\<lambda>b. b) (map lone_surrogate xs)"
| "lone_surrogate (JObj kvs) =
     list_ex (\<lambda>kv. surrogate_in (fst kv) \<or> snd kv) (map (map_prod id lone_surrogate) kvs)"

definition sample_dumps_error :: "json \<Rightarrow> exc option" where
  "sample_dumps_error v =
     (if lone_surrogate v
      then Some (Exc (lit ''UnicodeEncodeError'') (lit ''surrogates not allowed''))
      else None)"

text \<open>The bytes of a JSON list whose only item is the string with the escape of the
  code point D800: a quotation mark is 0x22, a backslash 0x5C.\<close>

definition surrogate_catalog :: bytes where
  "surrogate_catalog = ''['' @ [CHR 0x22, CHR 0x5C] @ ''ud800'' @ [CHR 0x22] @ '']''"

definition no_files :: files where
  "no_files = \<lparr>dist_songs = None, dist_latest = None, docs_songs = None, docs_latest = None\<rparr>"

definition cells :: "string list \<Rightarrow> row" where
  "cells xs = map (\<lambda>x. if x = [] then None else Some (lit x)) xs"

text \<open>A small valid workbook: two songs given out of order, two versions and one glossary
  entry for song \<^verbatim>\<open>a\<close>.\<close>

definition sample_songs_sheet :: sheet where
  "sample_songs_sheet =
     [cells [''id'', ''title'', ''hub'', ''lyrics'', ''genre''],
      cells [''b'', ''Song B'', ''don'', ''la la'', []],
      cells [[], [], [], [], []],
      cells [''a'', ''Song A'', ''kuban'', ''tra la'', ''march'']]"

definition sample_versions_sheet :: sheet where
  "sample_versions_sheet =
     [cells [''songId'', ''id'', ''title'', ''audioUrl''],
      cells [''a'', ''v1'', [], ''a1.mp3''],
      cells [''a'', ''v2'', ''Second'', []]]"

definition sample_glossary_sheet :: sheet where
  "sample_glossary_sheet =
     [cells [''songId'', ''term'', ''definition''],
      cells [''a'', ''Ataman'', ''a leader'']]"

definition sample_workbook :: workbook where
  "sample_workbook =
     [(lit ''meta'', [cells [''catalogVersion'', ''1''], cells [''baseMediaUrl'', ''https://m/'']]),
      (lit ''songs'', sample_songs_sheet),
      (lit ''versions'', sample_versions_sheet),
      (lit ''glossary'', sample_glossary_sheet)]"

text \<open>The song list this workbook gives: song \<^verbatim>\<open>a\<close> before song \<^verbatim>\<open>b\<close>.\<close>

definition sample_songs :: "pydict list" where
  "sample_songs =
     [[(lit ''id'', JStr (lit ''a'')),
       (lit ''title'', JStr (lit ''Song A'')),
       (lit ''altTitles'', JStr []),
       (lit ''hub'', JStr (lit ''kuban'')),
       (lit ''regionDetail'', JStr []),
       (lit ''genre'', JStr (lit ''march'')),
       (lit ''themes'', JArr []),
       (lit ''cossackHost'', JStr []),
       (lit ''languageTag'', JStr default_language_tag),
       (lit ''contextShort'', JStr []),
       (lit ''lyrics'', JStr (lit ''tra la'')),
       (lit ''glossary'',
          JArr [JObj [(lit ''term'', JStr (lit ''Ataman'')),
                      (lit ''definition'', JStr (lit ''a leader''))]]),
       (lit ''sourceNote'', JStr []),
       (lit ''audioUrl'', JStr []),
       (lit ''minusUrl'', JStr []),
       (lit ''videoUrl'', JStr []),
       (lit ''rightsStatus'', JStr (lit ''NONE'')),
       (lit ''externalLinks'', JArr []),
       (lit ''versions'',
          JArr [JObj [(lit ''id'', JStr (lit ''v1'')), (lit ''audioUrl'', JStr (lit ''a1.mp3''))],
                JObj [(lit ''id'', JStr (lit ''v2'')), (lit ''title'', JStr (lit ''Second''))]])],
      [(lit ''id'', JStr (lit ''b'')),
       (lit ''title'', JStr (lit ''Song B'')),
       (lit ''altTitles'', JStr []),
       (lit ''hub'', JStr (lit ''don'')),
       (lit ''regionDetail'', JStr []),
       (lit ''genre'', JStr []),
       (lit ''themes'', JArr []),
       (lit ''cossackHost'', JStr []),
       (lit ''languageTag'', JStr default_language_tag),
       (lit ''contextShort'', JStr []),
       (lit ''lyrics'', JStr (lit ''la la'')),
       (lit ''glossary'', JArr []),
       (lit ''sourceNote'', JStr []),
       (lit ''audioUrl'', JStr []),
       (lit ''minusUrl'', JStr []),
       (lit ''videoUrl'', JStr []),
       (lit ''rightsStatus'', JStr (lit ''NONE'')),
       (lit ''externalLinks'', JArr []),
       (lit ''versions'', JArr [])]]"

text \<open>The clock of the sample runs, two environments and the library.\<close>

definition sample_time :: pystr where
  "sample_time = lit ''2026-02-09T12:34:56Z''"

definition lax_env :: env where
  "lax_env = \<lparr>strict_versioning = None, now_iso_utc = sample_time\<rparr>"

definition strict_env :: env where
  "strict_env =
     \<lparr>strict_versioning = Some (lit '' TRUE ''), now_iso_utc = lit ''2026-03-01T08:00:00Z''\<rparr>"

definition sample_documents :: "json list" where
  "sample_documents =
     [JObj [], JArr [], JArr (map JObj sample_songs),
      JObj (manifest 1 sample_time (lit ''https://m/'')),
      JObj (manifest 2 sample_time (lit ''https://m/'')),
      JObj (manifest 1 sample_time (lit ''https://old/''))]"

definition sample_loads :: "bytes \<Rightarrow> exc + json" where
  "sample_loads b =
     (if b = surrogate_catalog then Inr (JArr [JStr [55296]])
      else
        (case List.find (\<lambda>j. compact_dumps j = b) sample_documents of
           Some j \<Rightarrow> Inr j
         | None \<Rightarrow> Inl (Exc (lit ''JSONDecodeError'') (lit ''Expecting value''))))"

definition sample_lib :: pylib where
  "sample_lib =
     \<lparr>str_lower = ascii_lower,
      int_of_str = ascii_int,
      int_of_float = (\<lambda>_. None),
      int_exc = (\<lambda>_. Exc (lit ''TypeError'') (lit ''int() argument'')),
      str_of_value = (\<lambda>_. []),
      json_loads = sample_loads,
      json_dumps = compact_dumps,
      dumps_error = sample_dumps_error,
      sha256_hex = map of_char\<rparr>"

text \<open>The files after a first run on the sample workbook, and the same with an older,
  empty catalog in \<^verbatim>\<open>docs/songs.json\<close>.\<close>

definition published_files :: files where
  "published_files =
     write_outputs sample_lib lax_env no_files
       (json_dumps sample_lib (JArr (map JObj sample_songs))) 1 (lit ''https://m/'')"

definition stale_files :: files where
  "stale_files = published_files\<lparr>docs_songs := Some ''[]''\<rparr>"

text \<open>The published files with another manifest: one of version 2, and one of version 1
  with another base media URL.\<close>

definition newer_files :: files where
  "newer_files =
     published_files\<lparr>docs_latest :=
       Some (json_dumps sample_lib (JObj (manifest 2 sample_time (lit ''https://m/''))))\<rparr>"

definition moved_files :: files where
  "moved_files =
     published_files\<lparr>docs_latest :=
       Some (json_dumps sample_lib (JObj (manifest 1 sample_time (lit ''https://old/''))))\<rparr>"

text \<open>The dictionary of songs after the songs sheet of the sample workbook, in row order
  and with the two lists still empty.\<close>

definition sample_songs_by_id :: songs_by_id where
  "sample_songs_by_id =
     [(lit ''b'', sample_songs ! 1),
      (lit ''a'', dict_set (dict_set (sample_songs ! 0) (lit ''glossary'') (JArr []))
                    (lit ''versions'') (JArr []))]"

text \<open>The sample workbook with another versions sheet: here row 3 refers to a song
  \<^verbatim>\<open>c\<close> that the songs sheet does not have.\<close>

definition unknown_ref_versions_sheet :: sheet where
  "unknown_ref_versions_sheet =
     [cells [''songId'', ''id'', ''title'', ''audioUrl''],
      cells [''a'', ''v1'', [], ''a1.mp3''],
      cells [''c'', ''v9'', [], []]]"

definition unknown_ref_workbook :: workbook where
  "unknown_ref_workbook =
     [(lit ''meta'', [cells [''catalogVersion'', ''1''], cells [''baseMediaUrl'', ''https://m/'']]),
      (lit ''songs'', sample_songs_sheet),
      (lit ''versions'', unknown_ref_versions_sheet),
      (lit ''glossary'', sample_glossary_sheet)]"

text \<open>And here row 2 refers to the unknown song \<^verbatim>\<open>c\<close> and has no version id.\<close>

definition blank_id_versions_sheet :: sheet where
  "blank_id_versions_sheet =
     [cells [''songId'', ''id'', ''title'', ''audioUrl''],
      cells [''c'', [], [], ''c1.mp3'']]"

definition blank_id_workbook :: workbook where
  "blank_id_workbook =
     [(lit ''meta'', [cells [''catalogVersion'', ''1''], cells [''baseMediaUrl'', ''https://m/'']]),
      (lit ''songs'', sample_songs_sheet),
      (lit ''versions'', blank_id_versions_sheet),
      (lit ''glossary'', sample_glossary_sheet)]"


text \<open>Two more songs sheets. In the first, row 3 has no title; in the second, row 3
  repeats the id of row 2.\<close>

definition untitled_workbook :: workbook where
  "untitled_workbook =
     [(lit ''meta'', [cells [''catalogVersion'', ''1''], cells [''baseMediaUrl'', ''https://m/'']]),
      (lit ''songs'',
         [cells [''id'', ''title'', ''hub'', ''lyrics''],
          cells [''a'', ''Song A'', ''kuban'', ''tra la''],
          cells [''b'', [], ''don'', ''la la'']]),
      (lit ''versions'', sample_versions_sheet),
      (lit ''glossary'', sample_glossary_sheet)]"

definition duplicate_workbook :: workbook where
  "duplicate_workbook =
     [(lit ''meta'', [cells [''catalogVersion'', ''1''], cells [''baseMediaUrl'', ''https://m/'']]),
      (lit ''songs'',
         [cells [''id'', ''title'', ''hub'', ''lyrics''],
          cells [''b'', ''Song B'', ''don'', ''la la''],
          cells [''b'', ''Song B again'', ''don'', ''la'']]),
      (lit ''versions'', sample_versions_sheet),
      (lit ''glossary'', sample_glossary_sheet)]"

text \<open>A workbook with one song whose cells hold white space: around the id and the
  rights status, and nothing else in the genre (two spaces) and in the language tag (a
  space and a tab).\<close>

definition spaced_songs_sheet :: sheet where
  "spaced_songs_sheet =
     [cells [''id'', ''title'', ''hub'', ''lyrics'', ''genre'', ''languageTag'', ''rightsStatus''],
      cells ['' s1 '', ''T'', ''h'', ''l'', ''  '', '' '' @ [CHR 0x09], '' CC '']]"

definition spaced_workbook :: workbook where
  "spaced_workbook =
     [(lit ''meta'', [cells [''catalogVersion'', ''1''], cells [''baseMediaUrl'', ''https://m/'']]),
      (lit ''songs'', spaced_songs_sheet),
      (lit ''versions'', [cells [''songId'', ''id'']]),
      (lit ''glossary'', [cells [''songId'', ''term'', ''definition'']])]"

definition spaced_song :: pydict where
  "spaced_song =
     [(lit ''id'', JStr (lit ''s1'')),
      (lit ''title'', JStr (lit ''T'')),
      (lit ''altTitles'', JStr []),
      (lit ''hub'', JStr (lit ''h'')),
      (lit ''regionDetail'', JStr []),
      (lit ''genre'', JStr []),
      (lit ''themes'', JArr []),
      (lit ''cossackHost'', JStr []),
      (lit ''languageTag'', JStr default_language_tag),
      (lit ''contextShort'', JStr []),
      (lit ''lyrics'', JStr (lit ''l'')),
      (lit ''glossary'', JArr []),
      (lit ''sourceNote'', JStr []),
      (lit ''audioUrl'', JStr []),
      (lit ''minusUrl'', JStr []),
      (lit ''videoUrl'', JStr []),
      (lit ''rightsStatus'', JStr (lit ''CC'')),
      (lit ''externalLinks'', JArr []),
      (lit ''versions'', JArr [])]"
section \<open>Facts about the helpers\<close>

lemma lit_eq_iff [simp]: "lit s = lit t \<longleftrightarrow> s = t"
  by (simp add: lit_def inj_map_eq_map inj_on_def)

lemma lit_Nil_iff [simp]: "lit s = [] \<longleftrightarrow> s = []"
  by (simp add: lit_def)

lemma lit_append [simp]: "lit s @ lit t = lit (s @ t)"
  by (simp add: lit_def)

lemma lit_append_assoc [simp]: "lit s @ lit t @ u = lit (s @ t) @ u"
  by (simp add: lit_def)

lemma map_of_dict_set: "map_of (dict_set d k v) = (map_of d)(k \<mapsto> v)"
  by (induction d k v rule: dict_set.induct) auto

lemma dict_set_append: "k \<notin> set (map fst d) \<Longrightarrow> dict_set d k v = d @ [(k, v)]"
  by (induction d k v rule: dict_set.induct) auto

lemma keys_dict_set_present: "k \<in> set (map fst d) \<Longrightarrow> map fst (dict_set d k v) = map fst d"
  by (induction d k v rule: dict_set.induct) auto

lemma map_of_tabulate:
  "map_of (map (\<lambda>k. (k, f k)) ks) k = (if k \<in> set ks then Some (f k) else None)"
  by (induction ks) auto

text \<open>\<^verbatim>\<open>str.strip\<close> as defined here does what trimming means: the result is empty exactly
  for white space, and otherwise it is the text between the white space at the two ends.\<close>

lemma dropWhile_rev_Nil_iff:
  "dropWhile P (rev (dropWhile P t)) = [] \<longleftrightarrow> dropWhile P t = []"
proof
  assume a: "dropWhile P (rev (dropWhile P t)) = []"
  show "dropWhile P t = []"
  proof (rule ccontr)
    assume ne: "dropWhile P t \<noteq> []"
    then have "\<not> P (hd (dropWhile P t))" by (rule hd_dropWhile)
    moreover from ne have "hd (dropWhile P t) \<in> set (rev (dropWhile P t))" by simp
    ultimately show False using a by (simp only: dropWhile_eq_Nil_conv) blast
  qed
next
  assume empty: "dropWhile P t = []"
  show "dropWhile P (rev (dropWhile P t)) = []" unfolding empty by simp
qed

lemma strip_Nil_iff: "strip t = [] \<longleftrightarrow> list_all isspace t"
  unfolding strip_def rev_is_Nil_conv dropWhile_rev_Nil_iff
  by (simp add: dropWhile_eq_Nil_conv list_all_iff)

lemma strip_ends:
  assumes "strip t \<noteq> []"
  shows "\<not> isspace (hd (strip t))" and "\<not> isspace (last (strip t))"
proof -
  let ?u = "dropWhile isspace t"
  let ?w = "dropWhile isspace (rev ?u)"
  from assms have w: "?w \<noteq> []" by (simp add: strip_def)
  then have u: "?u \<noteq> []" by (simp only: dropWhile_rev_Nil_iff not_False_eq_True)
  from w have "\<not> isspace (hd ?w)" by (rule hd_dropWhile)
  with w show "\<not> isspace (last (strip t))" by (simp add: strip_def last_rev)
  have "rev ?u = takeWhile isspace (rev ?u) @ ?w" by simp
  with w have "last (rev ?u) = last ?w" by (metis last_appendR)
  with u have "last ?w = hd ?u" by (simp add: last_rev)
  moreover from u have "\<not> isspace (hd ?u)" by (rule hd_dropWhile)
  ultimately show "\<not> isspace (hd (strip t))" using w by (simp add: strip_def hd_rev)
qed

lemma strip_decomp:
  "t = takeWhile isspace t @ strip t @ rev (takeWhile isspace (rev (dropWhile isspace t)))"
proof -
  let ?u = "dropWhile isspace t"
  have "strip t @ rev (takeWhile isspace (rev ?u)) =
          rev (takeWhile isspace (rev ?u) @ dropWhile isspace (rev ?u))"
    by (simp only: strip_def rev_append)
  also have "\<dots> = ?u"
    by (simp only: takeWhile_dropWhile_id rev_rev_ident)
  finally show ?thesis by simp
qed

lemma list_all_takeWhile: "list_all P (takeWhile P xs)"
  by (induction xs) simp_all

lemma trimmed_of_strip: "trimmed_of t (strip t)"
proof -
  have "list_all isspace (takeWhile isspace t)"
    by (rule list_all_takeWhile)
  moreover have "list_all isspace (rev (takeWhile isspace (rev (dropWhile isspace t))))"
    by (simp add: list_all_takeWhile)
  ultimately have "\<exists>l r. t = l @ strip t @ r \<and> list_all isspace l \<and> list_all isspace r"
    using strip_decomp [of t] by blast
  with strip_ends [of t] show ?thesis by (auto simp: trimmed_of_def)
qed

lemma py_s_blank: "py_s c = [] \<longleftrightarrow> blank_cell c"
  by (simp add: py_s_def blank_cell_def strip_Nil_iff split: option.splits)

lemma py_s_trimmed: "c = Some t \<Longrightarrow> trimmed_of t (py_s c)"
  by (simp add: py_s_def trimmed_of_strip)

lemma cell_value_py_s: "cell_value c [] (py_s c)"
  by (auto simp: cell_value_def py_s_def strip_Nil_iff trimmed_of_strip split: option.splits)

lemma cell_value_default: "cell_value c d (if py_s c \<noteq> [] then py_s c else d)"
  by (auto simp: cell_value_def py_s_def strip_Nil_iff trimmed_of_strip split: option.splits)

lemma blank_row_iff: "blank_row row \<longleftrightarrow> list_all blank_cell row"
  by (simp add: blank_row_def py_s_blank)

lemma nonblank_cell:
  assumes "\<not> blank_cell c"
  obtains t where "c = Some t" and "\<not> list_all isspace t" and "trimmed_of t (py_s c)"
    and "py_s c \<noteq> []"
proof -
  from assms obtain t where c: "c = Some t" and t: "\<not> list_all isspace t"
    by (auto simp: blank_cell_def split: option.splits)
  from c have "trimmed_of t (py_s c)" by (rule py_s_trimmed)
  moreover from assms have "py_s c \<noteq> []" by (simp add: py_s_blank)
  ultimately show thesis using c t by (intro that)
qed

lemma py_opt_eq: "py_opt c = (if py_s c = [] then None else Some (py_s c))"
  by (simp add: py_opt_def)

lemma version_opt_loop_eq:
  "distinct ks \<Longrightarrow> set ks \<inter> set (map fst ver) = {} \<Longrightarrow>
   version_opt_loop row h ks ver =
     ver @ map (\<lambda>k. (k, JStr (py_s (get_cell row h k))))
             (filter (\<lambda>k. py_s (get_cell row h k) \<noteq> []) ks)"
proof (induction ks arbitrary: ver)
  case Nil
  show ?case by simp
next
  case (Cons k ks)
  show ?case
  proof (cases "py_s (get_cell row h k) = []")
    case True
    with Cons show ?thesis by (simp add: py_opt_eq)
  next
    case False
    from Cons.prems have fresh: "k \<notin> set (map fst ver)" by auto
    have step: "dict_set ver k (JStr (py_s (get_cell row h k))) =
                  ver @ [(k, JStr (py_s (get_cell row h k)))]"
      using fresh by (rule dict_set_append)
    from Cons.prems have "distinct ks"
      and "set ks \<inter> set (map fst (ver @ [(k, JStr (py_s (get_cell row h k)))])) = {}"
      by auto
    from Cons.IH [OF this] False step show ?thesis by (simp add: py_opt_eq)
  qed
qed

lemma version_opt_keys_distinct: "distinct version_opt_keys"
  by (simp add: version_opt_keys_def)

lemma id_not_opt_key: "lit ''id'' \<notin> set version_opt_keys"
  by (simp add: version_opt_keys_def)

lemma build_version_dict_Inr:
  assumes "build_version_dict row h = Inr (song_id, ver)"
  shows "song_id = py_s (get_cell row h (lit ''songId''))"
    and "song_id \<noteq> []"
    and "py_s (get_cell row h (lit ''id'')) \<noteq> []"
    and "ver = (lit ''id'', JStr (py_s (get_cell row h (lit ''id'')))) #
               map (\<lambda>k. (k, JStr (py_s (get_cell row h k))))
                 (filter (\<lambda>k. py_s (get_cell row h k) \<noteq> []) version_opt_keys)"
proof -
  have loop: "version_opt_loop row h version_opt_keys [(lit ''id'', JStr v)] =
                [(lit ''id'', JStr v)] @ map (\<lambda>k. (k, JStr (py_s (get_cell row h k))))
                  (filter (\<lambda>k. py_s (get_cell row h k) \<noteq> []) version_opt_keys)" for v
    using version_opt_keys_distinct id_not_opt_key by (intro version_opt_loop_eq) auto
  from assms show "song_id = py_s (get_cell row h (lit ''songId''))"
    by (auto simp: build_version_dict_def Let_def py_fail_def split: if_splits)
  from assms show "song_id \<noteq> []"
    by (auto simp: build_version_dict_def Let_def py_fail_def split: if_splits)
  from assms show "py_s (get_cell row h (lit ''id'')) \<noteq> []"
    by (auto simp: build_version_dict_def Let_def py_fail_def split: if_splits)
  from assms loop show "ver = (lit ''id'', JStr (py_s (get_cell row h (lit ''id'')))) #
               map (\<lambda>k. (k, JStr (py_s (get_cell row h k))))
                 (filter (\<lambda>k. py_s (get_cell row h k) \<noteq> []) version_opt_keys)"
    by (auto simp: build_version_dict_def Let_def py_fail_def split: if_splits)
qed

text \<open>
  Claim C4. Whenever \<^verbatim>\<open>build_version_dict\<close> returns a record for a row, each of the six
  optional keys is a key of the record exactly when its cell is not blank, that is
  neither empty nor white space only; the record then holds under the key the text of
  the cell without the white space at its two ends, which is not empty. No value of the
  record is \<^verbatim>\<open>null\<close> or the empty string.
\<close>

theorem version_optional_key_iff_nonblank:
  assumes built: "build_version_dict row h = Inr (song_id, ver)"
    and key: "k \<in> set version_opt_keys"
  shows "(k \<in> set (map fst ver) \<longleftrightarrow> \<not> blank_cell (get_cell row h k)) \<and>
         (\<forall>t. get_cell row h k = Some t \<and> \<not> list_all isspace t \<longrightarrow>
            (\<exists>v. map_of ver k = Some (JStr v) \<and> trimmed_of t v \<and> v \<noteq> [])) \<and>
         (\<forall>v \<in> snd ` set ver. v \<noteq> JNull \<and> v \<noteq> JStr [])"
proof -
  note ver = build_version_dict_Inr(4) [OF built]
  from key id_not_opt_key have ne: "k \<noteq> lit ''id''" by auto
  have has: "k \<in> set (map fst ver) \<longleftrightarrow> \<not> blank_cell (get_cell row h k)"
    using key ne by (subst ver) (auto simp: comp_def py_s_blank)
  have val: "\<exists>v. map_of ver k = Some (JStr v) \<and> trimmed_of t v \<and> v \<noteq> []"
    if cell: "get_cell row h k = Some t" and nonblank: "\<not> list_all isspace t" for t
  proof -
    from cell nonblank have filled: "py_s (get_cell row h k) \<noteq> []"
      by (simp add: py_s_blank blank_cell_def)
    with key ne have "map_of ver k = Some (JStr (py_s (get_cell row h k)))"
      by (subst ver) (simp add: map_of_tabulate)
    with py_s_trimmed [OF cell] filled show ?thesis by blast
  qed
  have vals: "\<forall>v \<in> snd ` set ver. v \<noteq> JNull \<and> v \<noteq> JStr []"
    using build_version_dict_Inr(3) [OF built] by (subst ver) auto
  from has val vals show ?thesis by blast
qed

text \<open>A versions row whose title is two spaces, whose audio URL has a space before and a
  tab after it, and that has no column for the lyrics: the record has no title and no
  lyrics, and the audio URL without the space and the tab.\<close>

theorem version_optional_key_iff_nonblank_witness:
  "build_version_dict (cells [''a'', ''v1'', ''  '', '' a1.mp3'' @ [CHR 0x09]])
     (enum_headers 0 (cells [''songId'', ''id'', ''title'', ''audioUrl'']) Map.empty) =
     Inr (lit ''a'', [(lit ''id'', JStr (lit ''v1'')), (lit ''audioUrl'', JStr (lit ''a1.mp3''))]) \<and>
   lit ''title'' \<in> set version_opt_keys \<and>
   get_cell (cells [''a'', ''v1'', ''  '', '' a1.mp3'' @ [CHR 0x09]])
     (enum_headers 0 (cells [''songId'', ''id'', ''title'', ''audioUrl'']) Map.empty)
     (lit ''title'') = Some [32, 32] \<and>
   blank_cell (Some [32, 32]) \<and>
   lit ''title'' \<notin> set (map fst
     [(lit ''id'', JStr (lit ''v1'')), (lit ''audioUrl'', JStr (lit ''a1.mp3''))]) \<and>
   lit ''audioUrl'' \<in> set version_opt_keys \<and>
   get_cell (cells [''a'', ''v1'', ''  '', '' a1.mp3'' @ [CHR 0x09]])
     (enum_headers 0 (cells [''songId'', ''id'', ''title'', ''audioUrl'']) Map.empty)
     (lit ''audioUrl'') = Some ([32] @ lit ''a1.mp3'' @ [9]) \<and>
   \<not> blank_cell (Some ([32] @ lit ''a1.mp3'' @ [9])) \<and>
   trimmed_of ([32] @ lit ''a1.mp3'' @ [9]) (lit ''a1.mp3'') \<and>
   map_of [(lit ''id'', JStr (lit ''v1'')), (lit ''audioUrl'', JStr (lit ''a1.mp3''))]
     (lit ''audioUrl'') = Some (JStr (lit ''a1.mp3''))"
proof -
  let ?row = "cells [''a'', ''v1'', ''  '', '' a1.mp3'' @ [CHR 0x09]]"
  let ?h = "enum_headers 0 (cells [''songId'', ''id'', ''title'', ''audioUrl'']) Map.empty"
  let ?ver = "[(lit ''id'', JStr (lit ''v1'')), (lit ''audioUrl'', JStr (lit ''a1.mp3''))]"
  have built: "build_version_dict ?row ?h = Inr (lit ''a'', ?ver)"
    by (simp add: build_version_dict_def version_opt_keys_def get_cell_def cells_def py_s_def
        py_opt_def strip_def isspace_def lit_def)
  have keys: "lit ''title'' \<in> set version_opt_keys" "lit ''audioUrl'' \<in> set version_opt_keys"
    by (simp_all add: version_opt_keys_def)
  have title: "get_cell ?row ?h (lit ''title'') = Some [32, 32]"
    by (simp add: get_cell_def cells_def py_s_def strip_def isspace_def lit_def)
  have audio: "get_cell ?row ?h (lit ''audioUrl'') = Some ([32] @ lit ''a1.mp3'' @ [9])"
    by (simp add: get_cell_def cells_def py_s_def strip_def isspace_def lit_def)
  have blank: "blank_cell (Some [32, 32])" "\<not> blank_cell (Some ([32] @ lit ''a1.mp3'' @ [9]))"
    by (simp_all add: blank_cell_def isspace_def lit_def)
  have nonblank: "\<not> list_all isspace ([32] @ lit ''a1.mp3'' @ [9])"
    by (simp add: isspace_def lit_def)
  note absent = version_optional_key_iff_nonblank [OF built keys(1), THEN conjunct1]
  note present = version_optional_key_iff_nonblank [OF built keys(2), THEN conjunct2,
      THEN conjunct1, rule_format, OF conjI, OF audio nonblank]
  from present have trimmed: "trimmed_of ([32] @ lit ''a1.mp3'' @ [9]) (lit ''a1.mp3'')"
    and val: "map_of ?ver (lit ''audioUrl'') = Some (JStr (lit ''a1.mp3''))"
    by auto
  from absent title blank(1) have omitted: "lit ''title'' \<notin> set (map fst ?ver)"
    by simp
  from built keys title blank omitted audio trimmed val show ?thesis
    by (intro conjI)
qed

section \<open>The sample workbook, evaluated\<close>

lemmas eval_cells =
  cells_def py_s_def py_opt_def py_split_list_def strip_def isspace_def lit_def apos_def
  get_cell_def blank_row_def dict_has_def py_fail_def and_then_def Let_def

lemma sample_build:
  "build_songs sample_lib (Some sample_workbook) = Inr (1, lit ''https://m/'', sample_songs)"
  by (simp add: build_songs_def sample_workbook_def sample_songs_sheet_def
        sample_versions_sheet_def sample_glossary_sheet_def wb_sheet_def read_catalog_meta_def
        read_meta_def songs_stage_def versions_stage_def glossary_stage_def sheet_headers_def
        build_song_dict_def build_version_dict_def build_glossary_item_def version_opt_keys_def
        append_child_def seen_of_def sorted_songs_def List.map_filter_def
        sample_lib_def ascii_int_def ascii_lower_def sample_songs_def default_language_tag_def
        eval_cells del: lit_eq_iff lit_Nil_iff lit_append lit_append_assoc)

lemma sample_loads_obj: "json_loads sample_lib ''{}'' = Inr (JObj [])"
  by (simp add: sample_lib_def sample_loads_def sample_documents_def surrogate_catalog_def)

lemma sample_loads_arr: "json_loads sample_lib ''[]'' = Inr (JArr [])"
  by (simp add: sample_lib_def sample_loads_def sample_documents_def surrogate_catalog_def)

lemma sample_loads_songs:
  "json_loads sample_lib (json_dumps sample_lib (JArr (map JObj sample_songs))) =
     Inr (JArr (map JObj sample_songs))"
  by (simp add: sample_lib_def sample_loads_def sample_documents_def sample_songs_def
        surrogate_catalog_def)

lemma sample_loads_manifest:
  "json_loads sample_lib
     (json_dumps sample_lib (JObj (manifest 1 sample_time (lit ''https://m/'')))) =
     Inr (JObj (manifest 1 sample_time (lit ''https://m/'')))"
  by (simp add: sample_lib_def sample_loads_def sample_documents_def manifest_def
        surrogate_catalog_def)


lemma sample_loads_surrogate: "json_loads sample_lib surrogate_catalog = Inr (JArr [JStr [55296]])"
  by (simp add: sample_lib_def sample_loads_def)

lemma sample_dumps_surrogate:
  "dumps_error sample_lib (JArr [JStr [55296]]) =
     Some (Exc (lit ''UnicodeEncodeError'') (lit ''surrogates not allowed''))"
  by (simp add: sample_lib_def sample_dumps_error_def surrogate_in_def)

lemma sample_dumps_ok:
  "dumps_error sample_lib (JArr []) = None"
  "dumps_error sample_lib (JArr (map JObj sample_songs)) = None"
  by (simp_all add: sample_lib_def sample_dumps_error_def surrogate_in_def sample_songs_def
        default_language_tag_def lit_def del: lit_eq_iff lit_Nil_iff lit_append lit_append_assoc)

lemma sample_loads_newer:
  "json_loads sample_lib
     (json_dumps sample_lib (JObj (manifest 2 sample_time (lit ''https://m/'')))) =
     Inr (JObj (manifest 2 sample_time (lit ''https://m/'')))"
  by (simp add: sample_lib_def sample_loads_def sample_documents_def manifest_def
        surrogate_catalog_def to_bytes_def str_int_def str_nat.simps)

lemma sample_loads_moved:
  "json_loads sample_lib
     (json_dumps sample_lib (JObj (manifest 1 sample_time (lit ''https://old/'')))) =
     Inr (JObj (manifest 1 sample_time (lit ''https://old/'')))"
  by (simp add: sample_lib_def sample_loads_def sample_documents_def manifest_def
        surrogate_catalog_def to_bytes_def str_int_def str_nat.simps lit_def
        del: lit_eq_iff lit_Nil_iff lit_append lit_append_assoc)

lemma sample_digest: "sha256_hex sample_lib a = sha256_hex sample_lib b \<longleftrightarrow> a = b"
  by (simp add: sample_lib_def inj_map_eq_map inj_on_def)
section \<open>The strict versioning gate\<close>

lemma strict_mode_strict_env: "strict_mode sample_lib strict_env"
  by (simp add: strict_mode_def strict_env_def sample_lib_def ascii_lower_def strip_def
        isspace_def lit_def)

lemma str_join_two: "str_join sep (p # ps) = (if ps = [] then p else p @ sep @ str_join sep ps)"
  by (cases ps) simp_all

lemma gate_message_names_versions:
  "\<exists>rest. gate_message old_version catalog_version details =
      lit ''STRICT_VERSIONING: content changed but catalogVersion was not bumped. old='' @
      str_int old_version @ lit '', new='' @ str_int catalog_version @ rest"
  by (simp add: gate_message_def)

text \<open>What a run does once the workbook is valid, the mode is strict, the old manifest has
  been read and the old catalog compared.\<close>

lemma main_strict:
  assumes "strict_mode L E"
    and "docs_latest fs = Some old_latest"
    and "parse_old_manifest L old_latest = Inr (old_version, old_base)"
    and "build_songs L inp = Inr (cv, base, songs)"
    and "songs_changed L (docs_songs fs) (json_dumps L (JArr (map JObj songs))) = Inr songs_ch"
  shows "main L E inp fs =
           (if (songs_ch \<or> old_base \<noteq> strip base) \<and> cv \<le> old_version
            then (py_fail (gate_message old_version cv
                    (gate_details songs_ch (old_base \<noteq> strip base) old_base base)), fs)
            else (Inr (), write_outputs L E fs (json_dumps L (JArr (map JObj songs))) cv base))"
  using assms by (simp add: main_def strict_gate_def and_then_def py_fail_def)

lemma songs_changed_previous:
  assumes "previous_catalog L fs old_norm"
  shows "songs_changed L (docs_songs fs) new_bytes =
           Inr (\<exists>old. old_norm = Some old \<and> sha256_hex L old \<noteq> sha256_hex L new_bytes)"
  using assms
  by (auto simp: previous_catalog_def songs_changed_def split: option.splits sum.splits)

text \<open>
  Claim C1. In strict mode, with an old manifest that has been read (old version and old
  base media URL) and with the previous catalog re-canonicalized, where equal digests
  mean equal bytes: when the new catalog bytes differ from the re-canonicalized previous
  catalog, or the trimmed base media URL differs from the old one, and the new version
  is not greater than the old one, the run ends with the message of the gate, which
  names the old and the new version, and writes nothing; in every other case, so
  whenever neither changed and whatever the new version is, the run writes its output.
\<close>

theorem strict_gate_decision:
  assumes "strict_mode L E"
    and "docs_latest fs = Some old_latest"
    and "parse_old_manifest L old_latest = Inr (old_version, old_base)"
    and "build_songs L inp = Inr (cv, base, songs)"
    and "new_bytes = json_dumps L (JArr (map JObj songs))"
    and "previous_catalog L fs old_norm"
    and "\<forall>old. old_norm = Some old \<and> sha256_hex L old = sha256_hex L new_bytes \<longrightarrow> old = new_bytes"
  shows "main L E inp fs =
           (if ((old_norm \<noteq> None \<and> old_norm \<noteq> Some new_bytes) \<or> old_base \<noteq> strip base) \<and>
               cv \<le> old_version
            then (py_fail (gate_message old_version cv
                    (gate_details (old_norm \<noteq> None \<and> old_norm \<noteq> Some new_bytes)
                       (old_base \<noteq> strip base) old_base base)), fs)
            else (Inr (), write_outputs L E fs new_bytes cv base)) \<and>
         (\<exists>rest. gate_message old_version cv
                    (gate_details (old_norm \<noteq> None \<and> old_norm \<noteq> Some new_bytes)
                       (old_base \<noteq> strip base) old_base base) =
            lit ''STRICT_VERSIONING: content changed but catalogVersion was not bumped. old='' @
            str_int old_version @ lit '', new='' @ str_int cv @ rest)"
proof (intro conjI)
  have "(\<exists>old. old_norm = Some old \<and> sha256_hex L old \<noteq> sha256_hex L new_bytes) \<longleftrightarrow>
          old_norm \<noteq> None \<and> old_norm \<noteq> Some new_bytes"
    using assms(7) by auto
  with songs_changed_previous [OF assms(6), of new_bytes]
  have changed: "songs_changed L (docs_songs fs) (json_dumps L (JArr (map JObj songs))) =
      Inr (old_norm \<noteq> None \<and> old_norm \<noteq> Some new_bytes)"
    unfolding assms(5) by simp
  show "main L E inp fs =
           (if ((old_norm \<noteq> None \<and> old_norm \<noteq> Some new_bytes) \<or> old_base \<noteq> strip base) \<and>
               cv \<le> old_version
            then (py_fail (gate_message old_version cv
                    (gate_details (old_norm \<noteq> None \<and> old_norm \<noteq> Some new_bytes)
                       (old_base \<noteq> strip base) old_base base)), fs)
            else (Inr (), write_outputs L E fs new_bytes cv base))"
    unfolding assms(5)
    using main_strict [OF assms(1) assms(2) assms(3) assms(4) changed]
    unfolding assms(5) .
  show "\<exists>rest. gate_message old_version cv
                    (gate_details (old_norm \<noteq> None \<and> old_norm \<noteq> Some new_bytes)
                       (old_base \<noteq> strip base) old_base base) =
            lit ''STRICT_VERSIONING: content changed but catalogVersion was not bumped. old='' @
            str_int old_version @ lit '', new='' @ str_int cv @ rest"
    by (rule gate_message_names_versions)
qed

lemma sample_old_manifest:
  "parse_old_manifest sample_lib
     (json_dumps sample_lib (JObj (manifest 1 sample_time (lit ''https://m/'')))) =
   Inr (1, lit ''https://m/'')"
  unfolding parse_old_manifest_def sample_loads_manifest
  by (simp add: manifest_def py_int_def py_str_def strip_def isspace_def lit_def)

lemma docs_latest_published:
  "docs_latest published_files =
     Some (json_dumps sample_lib (JObj (manifest 1 sample_time (lit ''https://m/''))))"
  by (simp add: published_files_def write_outputs_def lax_env_def Let_def)

lemma docs_songs_published:
  "docs_songs published_files = Some (json_dumps sample_lib (JArr (map JObj sample_songs)))"
  by (simp add: published_files_def write_outputs_def lax_env_def Let_def)

lemma songs_changed_published:
  "songs_changed sample_lib (docs_songs published_files)
     (json_dumps sample_lib (JArr (map JObj sample_songs))) = Inr False"
  unfolding docs_songs_published songs_changed_def
  by (simp add: sample_loads_songs sample_dumps_ok)

lemma previous_published:
  "previous_catalog sample_lib published_files
     (Some (json_dumps sample_lib (JArr (map JObj sample_songs))))"
  unfolding previous_catalog_def docs_songs_published
  by (simp add: sample_loads_songs sample_dumps_ok)

lemma previous_stale: "previous_catalog sample_lib stale_files (Some ''[]'')"
  by (simp add: previous_catalog_def stale_files_def sample_loads_arr sample_dumps_ok)
     (simp add: sample_lib_def)

lemma stale_differs: "json_dumps sample_lib (JArr (map JObj sample_songs)) \<noteq> ''[]''"
  by (simp add: sample_lib_def sample_songs_def)

lemma strip_sample_url: "strip (lit ''https://m/'') = lit ''https://m/''"
  by (simp add: strip_def isspace_def lit_def)

lemma sample_first_run:
  "main sample_lib lax_env (Some sample_workbook) no_files = (Inr (), published_files)"
  by (simp add: main_def sample_build strict_gate_def no_files_def published_files_def)

lemma sample_second_run:
  "main sample_lib strict_env (Some sample_workbook) published_files =
     (Inr (), write_outputs sample_lib strict_env published_files
                (json_dumps sample_lib (JArr (map JObj sample_songs))) 1 (lit ''https://m/''))"
  using main_strict [OF strict_mode_strict_env docs_latest_published sample_old_manifest
      sample_build songs_changed_published]
  by (simp add: strip_sample_url)

lemma sample_newer_manifest:
  "parse_old_manifest sample_lib
     (json_dumps sample_lib (JObj (manifest 2 sample_time (lit ''https://m/'')))) =
   Inr (2, lit ''https://m/'')"
  unfolding parse_old_manifest_def sample_loads_newer
  by (simp add: manifest_def py_int_def py_str_def strip_def isspace_def lit_def)

lemma sample_moved_manifest:
  "parse_old_manifest sample_lib
     (json_dumps sample_lib (JObj (manifest 1 sample_time (lit ''https://old/'')))) =
   Inr (1, lit ''https://old/'')"
  unfolding parse_old_manifest_def sample_loads_moved
  by (simp add: manifest_def py_int_def py_str_def strip_def isspace_def lit_def)

lemma sample_files:
  "docs_latest stale_files =
     Some (json_dumps sample_lib (JObj (manifest 1 sample_time (lit ''https://m/''))))"
  "docs_latest newer_files =
     Some (json_dumps sample_lib (JObj (manifest 2 sample_time (lit ''https://m/''))))"
  "docs_latest moved_files =
     Some (json_dumps sample_lib (JObj (manifest 1 sample_time (lit ''https://old/''))))"
  "previous_catalog sample_lib newer_files
     (Some (json_dumps sample_lib (JArr (map JObj sample_songs))))"
  "previous_catalog sample_lib moved_files
     (Some (json_dumps sample_lib (JArr (map JObj sample_songs))))"
  using previous_published
  by (simp_all add: stale_files_def newer_files_def moved_files_def docs_latest_published
        previous_catalog_def)

text \<open>Four strict runs on the sample workbook, whose version is 1: over an older, empty
  catalog the run is stopped; over the files it has published itself it writes again;
  over a manifest of version 2 with the same catalog and base media URL it writes as
  well, although 1 is below 2; and over a manifest with another base media URL it is
  stopped.\<close>

theorem strict_gate_decision_witness:
  "main sample_lib strict_env (Some sample_workbook) stale_files =
     (Inl (SystemExit
        (lit ''ERROR: STRICT_VERSIONING: content changed but catalogVersion was not bumped. '' @
         lit ''old=1, new=1. '' @ [1055, 1088, 1080, 1095, 1080, 1085, 1072] @
         lit '': songs.json changed. '' @ gate_advice)), stale_files) \<and>
   main sample_lib strict_env (Some sample_workbook) published_files =
     (Inr (), write_outputs sample_lib strict_env published_files
                (json_dumps sample_lib (JArr (map JObj sample_songs))) 1 (lit ''https://m/'')) \<and>
   main sample_lib strict_env (Some sample_workbook) newer_files =
     (Inr (), write_outputs sample_lib strict_env newer_files
                (json_dumps sample_lib (JArr (map JObj sample_songs))) 1 (lit ''https://m/'')) \<and>
   main sample_lib strict_env (Some sample_workbook) moved_files =
     (Inl (SystemExit
        (lit ''ERROR: STRICT_VERSIONING: content changed but catalogVersion was not bumped. '' @
         lit ''old=1, new=1. '' @ [1055, 1088, 1080, 1095, 1080, 1085, 1072] @
         lit '': baseMediaUrl changed ('' @ apos @ lit ''https://old/'' @ apos @ lit '' -> '' @
         apos @ lit ''https://m/'' @ apos @ lit ''). '' @ gate_advice)), moved_files)"
proof -
  let ?new = "json_dumps sample_lib (JArr (map JObj sample_songs))"
  have digest: "\<forall>old. old_norm = Some old \<and> sha256_hex sample_lib old = sha256_hex sample_lib ?new \<longrightarrow>
      old = ?new" for old_norm :: "bytes option"
    by (simp only: sample_digest) simp
  have one: "str_int 1 = lit ''1''"
    by (simp add: str_int_def str_nat.simps lit_def)
  note run = strict_gate_decision [OF strict_mode_strict_env _ _ sample_build refl _ digest,
      THEN conjunct1]
  from run [OF sample_files(1) sample_old_manifest previous_stale] stale_differs
  have blocked: "main sample_lib strict_env (Some sample_workbook) stale_files =
     (Inl (SystemExit
        (lit ''ERROR: STRICT_VERSIONING: content changed but catalogVersion was not bumped. '' @
         lit ''old=1, new=1. '' @ [1055, 1088, 1080, 1095, 1080, 1085, 1072] @
         lit '': songs.json changed. '' @ gate_advice)), stale_files)"
    by (simp add: strip_sample_url gate_details_def gate_message_def py_fail_def one)
  from run [OF docs_latest_published sample_old_manifest previous_published]
  have passed: "main sample_lib strict_env (Some sample_workbook) published_files =
     (Inr (), write_outputs sample_lib strict_env published_files ?new 1 (lit ''https://m/''))"
    by (simp add: strip_sample_url)
  from run [OF sample_files(2) sample_newer_manifest sample_files(4)]
  have lower: "main sample_lib strict_env (Some sample_workbook) newer_files =
     (Inr (), write_outputs sample_lib strict_env newer_files ?new 1 (lit ''https://m/''))"
    by (simp add: strip_sample_url)
  from run [OF sample_files(3) sample_moved_manifest sample_files(5)]
  have moved: "main sample_lib strict_env (Some sample_workbook) moved_files =
     (Inl (SystemExit
        (lit ''ERROR: STRICT_VERSIONING: content changed but catalogVersion was not bumped. '' @
         lit ''old=1, new=1. '' @ [1055, 1088, 1080, 1095, 1080, 1085, 1072] @
         lit '': baseMediaUrl changed ('' @ apos @ lit ''https://old/'' @ apos @ lit '' -> '' @
         apos @ lit ''https://m/'' @ apos @ lit ''). '' @ gate_advice)), moved_files)"
    by (simp add: strip_sample_url gate_details_def gate_message_def py_fail_def one)
  from blocked passed lower moved show ?thesis by (intro conjI)
qed

lemma songs_changed_None: "songs_changed L None new_bytes = Inr False"
  by (simp add: songs_changed_def)

text \<open>
  Claim C8. In strict mode, with an old manifest that has been read and no old
  \<^verbatim>\<open>docs/songs.json\<close>: \<^verbatim>\<open>songs_changed\<close> is false, and the run is stopped by the gate
  exactly when the trimmed base media URL differs and the version is not greater; the
  message then gives the base media URL as the only reason.
\<close>

theorem missing_old_catalog_counts_as_unchanged:
  assumes "strict_mode L E"
    and "docs_latest fs = Some old_latest"
    and "docs_songs fs = None"
    and "parse_old_manifest L old_latest = Inr (old_version, old_base)"
    and "build_songs L inp = Inr (cv, base, songs)"
  shows "songs_changed L (docs_songs fs) (json_dumps L (JArr (map JObj songs))) = Inr False \<and>
         main L E inp fs =
           (if old_base \<noteq> strip base \<and> cv \<le> old_version
            then (py_fail (gate_message old_version cv
                    [lit ''baseMediaUrl changed ('' @ apos @ old_base @ apos @ lit '' -> '' @
                     apos @ strip base @ apos @ lit '')'']), fs)
            else (Inr (), write_outputs L E fs (json_dumps L (JArr (map JObj songs))) cv base))"
proof -
  have unchanged:
    "songs_changed L (docs_songs fs) (json_dumps L (JArr (map JObj songs))) = Inr False"
    using assms(3) by (simp add: songs_changed_None)
  from main_strict [OF assms(1) assms(2) assms(4) assms(5) unchanged]
  have "main L E inp fs =
           (if old_base \<noteq> strip base \<and> cv \<le> old_version
            then (py_fail (gate_message old_version cv
                    [lit ''baseMediaUrl changed ('' @ apos @ old_base @ apos @ lit '' -> '' @
                     apos @ strip base @ apos @ lit '')'']), fs)
            else (Inr (), write_outputs L E fs (json_dumps L (JArr (map JObj songs))) cv base))"
    by (simp add: gate_details_def del: lit_append_assoc lit_append)
  with unchanged show ?thesis by simp
qed

lemma sample_empty_manifest: "parse_old_manifest sample_lib ''{}'' = Inr (0, [])"
  unfolding parse_old_manifest_def sample_loads_obj
  by (simp add: py_int_def py_str_def strip_def)

theorem missing_old_catalog_counts_as_unchanged_witness:
  "songs_changed sample_lib None (json_dumps sample_lib (JArr (map JObj sample_songs))) =
     Inr False \<and>
   main sample_lib strict_env (Some sample_workbook) (no_files\<lparr>docs_latest := Some ''{}''\<rparr>) =
     (Inr (),
      write_outputs sample_lib strict_env (no_files\<lparr>docs_latest := Some ''{}''\<rparr>)
        (json_dumps sample_lib (JArr (map JObj sample_songs))) 1 (lit ''https://m/''))"
proof -
  have latest: "docs_latest (no_files\<lparr>docs_latest := Some ''{}''\<rparr>) = Some ''{}''"
    by simp
  have none: "docs_songs (no_files\<lparr>docs_latest := Some ''{}''\<rparr>) = None"
    by (simp add: no_files_def)
  from missing_old_catalog_counts_as_unchanged
    [OF strict_mode_strict_env latest none sample_empty_manifest sample_build]
  show ?thesis by (simp add: none)
qed

text \<open>
  Claim C10, as stated, fails: the old manifest \<^verbatim>\<open>[]\<close> decodes as JSON and holds no
  \<^verbatim>\<open>catalogVersion\<close> at all, yet the strict run ends in the fatal branch
  \<^verbatim>\<open>cannot parse existing docs/latest.json\<close>, because a list has no method \<^verbatim>\<open>get\<close>.
\<close>

theorem non_object_manifest_is_fatal:
  "json_loads sample_lib ''[]'' = Inr (JArr []) \<and>
   main sample_lib strict_env (Some sample_workbook) (no_files\<lparr>docs_latest := Some ''[]''\<rparr>) =
     (Inl (SystemExit
        (lit ''ERROR: STRICT_VERSIONING: cannot parse existing docs/latest.json: '' @
         apos @ lit ''list'' @ apos @ lit '' object has no attribute '' @ apos @ lit ''get'' @ apos)),
      no_files\<lparr>docs_latest := Some ''[]''\<rparr>)"
proof -
  have parse: "parse_old_manifest sample_lib ''[]'' =
      Inl (SystemExit
        (lit ''ERROR: STRICT_VERSIONING: cannot parse existing docs/latest.json: '' @
         apos @ lit ''list'' @ apos @ lit '' object has no attribute '' @ apos @ lit ''get'' @ apos))"
    unfolding parse_old_manifest_def sample_loads_arr
    by (simp add: fail_latest_def py_fail_def type_name_def)
  have "main sample_lib strict_env (Some sample_workbook) (no_files\<lparr>docs_latest := Some ''[]''\<rparr>) =
     (Inl (SystemExit
        (lit ''ERROR: STRICT_VERSIONING: cannot parse existing docs/latest.json: '' @
         apos @ lit ''list'' @ apos @ lit '' object has no attribute '' @ apos @ lit ''get'' @ apos)),
      no_files\<lparr>docs_latest := Some ''[]''\<rparr>)"
    by (simp add: main_def sample_build strict_gate_def strict_mode_strict_env and_then_def parse
          del: lit_append_assoc lit_append)
  with sample_loads_arr show ?thesis by simp
qed

text \<open>
  Claim C10, amended. An old manifest that decodes to a JSON object without the key
  \<^verbatim>\<open>catalogVersion\<close> is read as version 0, and without \<^verbatim>\<open>baseMediaUrl\<close> as the empty
  base media URL. Reading the old manifest fails exactly when decoding fails, when the
  decoded document is not an object, or when the \<^verbatim>\<open>catalogVersion\<close> present in the object
  is not convertible to an integer; every such failure is the fatal
  \<^verbatim>\<open>cannot parse existing docs/latest.json\<close>.
\<close>

theorem old_manifest_defaults_and_failures:
  "(json_loads L b = Inr (JObj m) \<and> map_of m (lit ''catalogVersion'') = None \<longrightarrow>
      parse_old_manifest L b =
        Inr (0, strip (py_str L (case map_of m (lit ''baseMediaUrl'') of
                                   None \<Rightarrow> JStr [] | Some v \<Rightarrow> v)))) \<and>
   (json_loads L b = Inr (JObj m) \<and> map_of m (lit ''catalogVersion'') = None \<and>
    map_of m (lit ''baseMediaUrl'') = None \<longrightarrow>
      parse_old_manifest L b = Inr (0, [])) \<and>
   ((\<exists>e. parse_old_manifest L b = Inl e) \<longleftrightarrow>
      (\<exists>x. json_loads L b = Inl x) \<or>
      (\<exists>v. json_loads L b = Inr v \<and> (\<forall>d. v \<noteq> JObj d)) \<or>
      (\<exists>d c x. json_loads L b = Inr (JObj d) \<and> map_of d (lit ''catalogVersion'') = Some c \<and>
                py_int L c = Inl x)) \<and>
   (\<forall>e. parse_old_manifest L b = Inl e \<longrightarrow>
      (\<exists>txt. e = SystemExit
         (lit ''ERROR: STRICT_VERSIONING: cannot parse existing docs/latest.json: '' @ txt)))"
proof (intro conjI)
  show "json_loads L b = Inr (JObj m) \<and> map_of m (lit ''catalogVersion'') = None \<longrightarrow>
      parse_old_manifest L b =
        Inr (0, strip (py_str L (case map_of m (lit ''baseMediaUrl'') of
                                   None \<Rightarrow> JStr [] | Some v \<Rightarrow> v)))"
    by (simp add: parse_old_manifest_def py_int_def)
  show "json_loads L b = Inr (JObj m) \<and> map_of m (lit ''catalogVersion'') = None \<and>
    map_of m (lit ''baseMediaUrl'') = None \<longrightarrow>
      parse_old_manifest L b = Inr (0, [])"
    by (simp add: parse_old_manifest_def py_int_def py_str_def strip_def)
  show "(\<exists>e. parse_old_manifest L b = Inl e) \<longleftrightarrow>
      (\<exists>x. json_loads L b = Inl x) \<or>
      (\<exists>v. json_loads L b = Inr v \<and> (\<forall>d. v \<noteq> JObj d)) \<or>
      (\<exists>d c x. json_loads L b = Inr (JObj d) \<and> map_of d (lit ''catalogVersion'') = Some c \<and>
                py_int L c = Inl x)"
    by (auto simp: parse_old_manifest_def fail_latest_def py_fail_def py_int_def
          split: sum.splits json.splits option.splits exc.splits)
  show "\<forall>e. parse_old_manifest L b = Inl e \<longrightarrow>
      (\<exists>txt. e = SystemExit
         (lit ''ERROR: STRICT_VERSIONING: cannot parse existing docs/latest.json: '' @ txt))"
    by (auto simp: parse_old_manifest_def fail_latest_def py_fail_def
          split: sum.splits json.splits option.splits exc.splits)
qed

theorem old_manifest_defaults_and_failures_witness:
  "json_loads sample_lib ''{}'' = Inr (JObj []) \<and>
   parse_old_manifest sample_lib ''{}'' = Inr (0, [])"
  using old_manifest_defaults_and_failures [of sample_lib "''{}''" "[]"] sample_loads_obj
  by (simp add: py_str_def strip_def)

section \<open>Determinism of the catalog bytes\<close>

lemma main_Inr:
  assumes "main L E inp fs = (Inr (), out)"
  shows "\<exists>cv base songs.
           build_songs L inp = Inr (cv, base, songs) \<and>
           out = write_outputs L E fs (json_dumps L (JArr (map JObj songs))) cv base"
  using assms by (auto simp: main_def split: sum.splits prod.splits)

lemma write_outputs_files:
  "dist_songs (write_outputs L E fs new_bytes cv base) = Some new_bytes"
  "docs_songs (write_outputs L E fs new_bytes cv base) = Some new_bytes"
  "dist_latest (write_outputs L E fs new_bytes cv base) =
     Some (json_dumps L (JObj (manifest cv (now_iso_utc E) base)))"
  "docs_latest (write_outputs L E fs new_bytes cv base) =
     Some (json_dumps L (JObj (manifest cv (now_iso_utc E) base)))"
  by (simp_all add: write_outputs_def Let_def)

text \<open>
  Claim C3. Two completed runs on the same input, in whatever environment (clock, mode)
  and over whatever files, write the same bytes to \<^verbatim>\<open>songs.json\<close> in both directories:
  the serialisation of the song list built from the workbook. Their manifests are the
  serialisations of two records that agree in everything but \<^verbatim>\<open>publishedAt\<close>, which is
  the clock of each run.
\<close>

theorem songs_json_deterministic:
  assumes "main L E1 inp fs1 = (Inr (), out1)"
    and "main L E2 inp fs2 = (Inr (), out2)"
  shows "dist_songs out1 = dist_songs out2 \<and> docs_songs out1 = docs_songs out2 \<and>
         docs_songs out1 = dist_songs out1 \<and>
         (\<exists>cv base songs.
            build_songs L inp = Inr (cv, base, songs) \<and>
            dist_songs out1 = Some (json_dumps L (JArr (map JObj songs))) \<and>
            dist_latest out1 = Some (json_dumps L (JObj (manifest cv (now_iso_utc E1) base))) \<and>
            dist_latest out2 = Some (json_dumps L (JObj (manifest cv (now_iso_utc E2) base))) \<and>
            docs_latest out1 = dist_latest out1 \<and> docs_latest out2 = dist_latest out2)"
proof -
  from main_Inr [OF assms(1)] obtain cv base songs
    where built: "build_songs L inp = Inr (cv, base, songs)"
      and out1: "out1 = write_outputs L E1 fs1 (json_dumps L (JArr (map JObj songs))) cv base"
    by blast
  from main_Inr [OF assms(2)] built
  have out2: "out2 = write_outputs L E2 fs2 (json_dumps L (JArr (map JObj songs))) cv base"
    by auto
  from built show ?thesis
    unfolding out1 out2 by (simp add: write_outputs_files)
qed

theorem songs_json_deterministic_witness:
  "main sample_lib lax_env (Some sample_workbook) no_files = (Inr (), published_files) \<and>
   main sample_lib strict_env (Some sample_workbook) published_files =
     (Inr (), write_outputs sample_lib strict_env published_files
                (json_dumps sample_lib (JArr (map JObj sample_songs))) 1 (lit ''https://m/'')) \<and>
   dist_songs published_files =
     dist_songs (write_outputs sample_lib strict_env published_files
                   (json_dumps sample_lib (JArr (map JObj sample_songs))) 1 (lit ''https://m/''))"
  using songs_json_deterministic [OF sample_first_run sample_second_run]
    sample_first_run sample_second_run
  by simp

section \<open>The messages of the row validators\<close>

text \<open>Every error of a row validator is \<^verbatim>\<open>SystemExit\<close> with one of seven messages, made
  of the name of the sheet and of cells of the row: the validators are given the row
  and the headers, not the number of the row.\<close>

lemma validator_errors:
  "(build_song_dict row h = Inl e \<longrightarrow>
      (py_s (get_cell row h (lit ''id'')) = [] \<and>
       e = SystemExit (lit ''ERROR: songs: empty id'')) \<or>
      (py_s (get_cell row h (lit ''id'')) \<noteq> [] \<and>
       (\<exists>field \<in> {lit ''title'', lit ''hub'', lit ''lyrics''}.
          py_s (get_cell row h field) = [] \<and>
          e = SystemExit (lit ''ERROR: songs: empty '' @ field @ lit '' for id='' @
                          py_s (get_cell row h (lit ''id'')))))) \<and>
   (build_version_dict row h = Inl e \<longrightarrow>
      (py_s (get_cell row h (lit ''songId'')) = [] \<and>
       e = SystemExit (lit ''ERROR: versions: empty songId'')) \<or>
      (py_s (get_cell row h (lit ''songId'')) \<noteq> [] \<and>
       py_s (get_cell row h (lit ''id'')) = [] \<and>
       e = SystemExit (lit ''ERROR: versions: empty id for songId='' @
                       py_s (get_cell row h (lit ''songId''))))) \<and>
   (build_glossary_item row h = Inl e \<longrightarrow>
      (py_s (get_cell row h (lit ''songId'')) = [] \<and>
       e = SystemExit (lit ''ERROR: glossary: empty songId'')) \<or>
      (py_s (get_cell row h (lit ''songId'')) \<noteq> [] \<and>
       py_s (get_cell row h (lit ''term'')) = [] \<and>
       e = SystemExit (lit ''ERROR: glossary: empty term for songId='' @
                       py_s (get_cell row h (lit ''songId'')))) \<or>
      (py_s (get_cell row h (lit ''songId'')) \<noteq> [] \<and>
       py_s (get_cell row h (lit ''term'')) \<noteq> [] \<and>
       py_s (get_cell row h (lit ''definition'')) = [] \<and>
       e = SystemExit (lit ''ERROR: glossary: empty definition for songId='' @
                       py_s (get_cell row h (lit ''songId'')) @ lit '', term='' @
                       py_s (get_cell row h (lit ''term'')))))"
  by (auto simp: build_song_dict_def build_version_dict_def build_glossary_item_def Let_def
        py_fail_def split: if_splits)

text \<open>
  Claim C7 says that every fatal error of a row validator names the sheet, the offending
  id when known, and the 1-based row number of the offending row. The code does not do
  this. In the first workbook row 3 of the songs sheet has the id \<^verbatim>\<open>b\<close> and no title:
  the run ends with a message that names the sheet and the id and holds no digit at
  all, so no row number. In the second workbook row 3 repeats the id \<^verbatim>\<open>b\<close>: the error
  raised for it in the same loop, two lines after the call of the validator, does name
  row 3.
\<close>

theorem validator_message_names_no_row:
  "main sample_lib lax_env (Some untitled_workbook) no_files =
     (Inl (SystemExit (lit ''ERROR: songs: empty title for id=b'')), no_files) \<and>
   \<not> has_digit (lit ''ERROR: songs: empty title for id=b'') \<and>
   main sample_lib lax_env (Some duplicate_workbook) no_files =
     (Inl (SystemExit (lit ''ERROR: songs: duplicate id '' @ apos @ lit ''b'' @ apos @
                       lit '' (row 3)'')), no_files)"
proof -
  have untitled: "build_songs sample_lib (Some untitled_workbook) =
      Inl (SystemExit (lit ''ERROR: songs: empty title for id=b''))"
    by (simp add: build_songs_def untitled_workbook_def wb_sheet_def read_catalog_meta_def
          read_meta_def songs_stage_def sheet_headers_def build_song_dict_def
          sample_lib_def ascii_int_def eval_cells
          del: lit_eq_iff lit_Nil_iff lit_append lit_append_assoc)
  have duplicate: "build_songs sample_lib (Some duplicate_workbook) =
      Inl (SystemExit (lit ''ERROR: songs: duplicate id '' @ apos @ lit ''b'' @ apos @
                       lit '' (row 3)''))"
    by (simp add: build_songs_def duplicate_workbook_def wb_sheet_def read_catalog_meta_def
          read_meta_def songs_stage_def sheet_headers_def build_song_dict_def
          sample_lib_def ascii_int_def default_language_tag_def str_nat.simps eval_cells
          del: lit_eq_iff lit_Nil_iff lit_append lit_append_assoc)
  have "\<not> has_digit (lit ''ERROR: songs: empty title for id=b'')"
    by (simp add: has_digit_def lit_def)
  with untitled duplicate show ?thesis
    by (simp add: main_def)
qed

section \<open>Dictionaries and the lists they hold\<close>

lemma dict_set_same: "map_of d k = Some v \<Longrightarrow> dict_set d k v = d"
  by (induction d k v rule: dict_set.induct) (auto split: if_splits)

lemma dict_set_twice: "dict_set (dict_set d k v) k w = dict_set d k w"
  by (induction d k v rule: dict_set.induct) auto

lemma map_of_in_keys: "map_of d k = Some v \<Longrightarrow> k \<in> set (map fst d)"
  by (induction d) (auto split: if_splits)

lemma dict_has_iff: "dict_has d k \<longleftrightarrow> map_of d k \<noteq> None"
  by (simp add: dict_has_def map_of_eq_None_iff)

lemma keys_dict_set_bound: "map_of d k = Some v \<Longrightarrow> map fst (dict_set d k w) = map fst d"
  by (rule keys_dict_set_present) (rule map_of_in_keys)

lemma extend_list_keys: "map fst (extend_list d key items) = map fst d"
  by (auto simp: extend_list_def keys_dict_set_bound split: option.splits json.splits)

lemma map_of_extend_list:
  "map_of (extend_list d key items) k =
     (if k = key
      then (case map_of d key of Some (JArr xs) \<Rightarrow> Some (JArr (xs @ items)) | r \<Rightarrow> r)
      else map_of d k)"
  by (auto simp: extend_list_def map_of_dict_set split: option.splits json.splits)

lemma extend_list_Nil: "extend_list d key [] = d"
  by (auto simp: extend_list_def dict_set_same split: option.splits json.splits)

lemma extend_list_twice:
  "extend_list (extend_list d key xs) key ys = extend_list d key (xs @ ys)"
  by (auto simp: extend_list_def map_of_dict_set dict_set_twice split: option.splits json.splits)

lemma append_child_Inr:
  assumes "append_child songs_by_id song_id key item = Inr result"
  shows "map fst result = map fst songs_by_id"
    and "map_of result i =
           (if i = song_id then map_option (\<lambda>d. extend_list d key [item]) (map_of songs_by_id i)
            else map_of songs_by_id i)"
proof -
  from assms obtain song xs where song: "map_of songs_by_id song_id = Some song"
    and list: "map_of song key = Some (JArr xs)"
    and result: "result = dict_set songs_by_id song_id (dict_set song key (JArr (xs @ [item])))"
    by (auto simp: append_child_def split: option.splits json.splits)
  from song show "map fst result = map fst songs_by_id"
    unfolding result by (intro keys_dict_set_present map_of_in_keys)
  from song list show "map_of result i =
           (if i = song_id then map_option (\<lambda>d. extend_list d key [item]) (map_of songs_by_id i)
            else map_of songs_by_id i)"
    unfolding result by (simp add: map_of_dict_set extend_list_def)
qed

section \<open>The songs sheet\<close>

lemma build_song_dict_Inr:
  assumes "build_song_dict row h = Inr song"
  shows "map fst song = song_keys"
    and "map_of song (lit ''id'') = Some (JStr (py_s (get_cell row h (lit ''id''))))"
    and "py_s (get_cell row h (lit ''id'')) \<noteq> []"
    and "map_of song (lit ''versions'') = Some (JArr [])"
    and "map_of song (lit ''glossary'') = Some (JArr [])"
    and "\<And>k. k \<in> set copied_keys \<Longrightarrow> map_of song k = Some (JStr (py_s (get_cell row h k)))"
    and "map_of song (lit ''languageTag'') =
           Some (JStr (if py_s (get_cell row h (lit ''languageTag'')) \<noteq> []
                       then py_s (get_cell row h (lit ''languageTag''))
                       else default_language_tag))"
    and "map_of song (lit ''rightsStatus'') =
           Some (JStr (if py_s (get_cell row h (lit ''rightsStatus'')) \<noteq> []
                       then py_s (get_cell row h (lit ''rightsStatus''))
                       else lit ''NONE''))"
proof -
  from assms have ok: "py_s (get_cell row h (lit ''id'')) \<noteq> []"
      "py_s (get_cell row h (lit ''title'')) \<noteq> []"
      "py_s (get_cell row h (lit ''hub'')) \<noteq> []"
      "py_s (get_cell row h (lit ''lyrics'')) \<noteq> []"
    by (auto simp: build_song_dict_def Let_def py_fail_def split: if_splits)
  from assms ok have song: "song =
        [(lit ''id'', JStr (py_s (get_cell row h (lit ''id'')))),
         (lit ''title'', JStr (py_s (get_cell row h (lit ''title'')))),
         (lit ''altTitles'', JStr (py_s (get_cell row h (lit ''altTitles'')))),
         (lit ''hub'', JStr (py_s (get_cell row h (lit ''hub'')))),
         (lit ''regionDetail'', JStr (py_s (get_cell row h (lit ''regionDetail'')))),
         (lit ''genre'', JStr (py_s (get_cell row h (lit ''genre'')))),
         (lit ''themes'', JArr (map JStr (py_split_list (get_cell row h (lit ''themes''))))),
         (lit ''cossackHost'', JStr (py_s (get_cell row h (lit ''cossackHost'')))),
         (lit ''languageTag'',
            JStr (if py_s (get_cell row h (lit ''languageTag'')) \<noteq> []
                  then py_s (get_cell row h (lit ''languageTag''))
                  else default_language_tag)),
         (lit ''contextShort'', JStr (py_s (get_cell row h (lit ''contextShort'')))),
         (lit ''lyrics'', JStr (py_s (get_cell row h (lit ''lyrics'')))),
         (lit ''glossary'', JArr []),
         (lit ''sourceNote'', JStr (py_s (get_cell row h (lit ''sourceNote'')))),
         (lit ''audioUrl'', JStr (py_s (get_cell row h (lit ''audioUrl'')))),
         (lit ''minusUrl'', JStr (py_s (get_cell row h (lit ''minusUrl'')))),
         (lit ''videoUrl'', JStr (py_s (get_cell row h (lit ''videoUrl'')))),
         (lit ''rightsStatus'',
            JStr (if py_s (get_cell row h (lit ''rightsStatus'')) \<noteq> []
                  then py_s (get_cell row h (lit ''rightsStatus''))
                  else lit ''NONE'')),
         (lit ''externalLinks'',
            JArr (map JStr (py_split_list (get_cell row h (lit ''externalLinks''))))),
         (lit ''versions'', JArr [])]"
    by (simp add: build_song_dict_def Let_def)
  show "map fst song = song_keys" unfolding song by (simp add: song_keys_def)
  show "map_of song (lit ''id'') = Some (JStr (py_s (get_cell row h (lit ''id''))))"
    unfolding song by simp
  show "py_s (get_cell row h (lit ''id'')) \<noteq> []" by (rule ok)
  show "map_of song (lit ''versions'') = Some (JArr [])" unfolding song by simp
  show "map_of song (lit ''glossary'') = Some (JArr [])" unfolding song by simp
  show "map_of song k = Some (JStr (py_s (get_cell row h k)))" if "k \<in> set copied_keys" for k
    using that unfolding song copied_keys_def by auto
  show "map_of song (lit ''languageTag'') =
           Some (JStr (if py_s (get_cell row h (lit ''languageTag'')) \<noteq> []
                       then py_s (get_cell row h (lit ''languageTag''))
                       else default_language_tag))"
    unfolding song by simp
  show "map_of song (lit ''rightsStatus'') =
           Some (JStr (if py_s (get_cell row h (lit ''rightsStatus'')) \<noteq> []
                       then py_s (get_cell row h (lit ''rightsStatus''))
                       else lit ''NONE''))"
    unfolding song by simp
qed

lemma from_row_Cons: "from_row hs rows i d \<Longrightarrow> from_row hs (row # rows) i d"
  by (auto simp: from_row_def)

lemma songs_loop_Inr:
  "songs_loop hs n rows acc = Inr result \<Longrightarrow>
     \<exists>new. result = acc @ new \<and> map fst new = row_song_ids hs rows \<and>
           (\<forall>(i, d) \<in> set new. from_row hs rows i d) \<and>
           (distinct (map fst acc) \<longrightarrow> distinct (map fst result))"
proof (induction rows arbitrary: n acc)
  case Nil
  then show ?case by (simp add: row_song_ids_def)
next
  case (Cons row rows)
  show ?case
  proof (cases "blank_row row")
    case True
    with Cons.prems have "songs_loop hs (Suc n) rows acc = Inr result" by simp
    from Cons.IH [OF this] True show ?thesis
      by (auto simp: row_song_ids_def from_row_def)
  next
    case False
    with Cons.prems obtain song where built: "build_song_dict row hs = Inr song"
      by (auto split: sum.splits)
    note id = build_song_dict_Inr(2) [OF built]
    let ?i = "py_s (get_cell row hs (lit ''id''))"
    from Cons.prems False built id have fresh: "\<not> dict_has acc ?i"
      and rest: "songs_loop hs (Suc n) rows (dict_set acc ?i song) = Inr result"
      by (auto simp: py_fail_def split: if_splits)
    from fresh have set: "dict_set acc ?i song = acc @ [(?i, song)]"
      by (simp add: dict_set_append dict_has_def)
    from Cons.IH [OF rest] obtain new where new: "result = (acc @ [(?i, song)]) @ new"
      and keys: "map fst new = row_song_ids hs rows"
      and rows: "\<forall>(i, d) \<in> set new. from_row hs rows i d"
      and dist: "distinct (map fst (acc @ [(?i, song)])) \<longrightarrow> distinct (map fst result)"
      unfolding set by blast
    have "result = acc @ ((?i, song) # new)" using new by simp
    moreover have "map fst ((?i, song) # new) = row_song_ids hs (row # rows)"
      using keys False by (simp add: row_song_ids_def)
    moreover have "\<forall>(i, d) \<in> set ((?i, song) # new). from_row hs (row # rows) i d"
      using rows False built by (auto simp: from_row_def)
    moreover have "distinct (map fst acc) \<longrightarrow> distinct (map fst result)"
      using dist fresh by (simp add: dict_has_def)
    ultimately show ?thesis by blast
  qed
qed

lemma songs_stage_Inr:
  assumes "songs_stage ws = Inr songs_by_id"
  obtains hs where "sheet_headers ws = Inr hs"
    and "songs_loop hs 2 (drop 1 ws) [] = Inr songs_by_id"
  using assms
  by (auto simp: songs_stage_def and_then_def py_fail_def split: sum.splits if_splits)

lemma songs_stage_facts:
  assumes "songs_stage ws = Inr songs_by_id" and "sheet_headers ws = Inr hs"
  shows "map fst songs_by_id = row_song_ids hs (drop 1 ws)"
    and "distinct (map fst songs_by_id)"
    and "\<And>i d. map_of songs_by_id i = Some d \<Longrightarrow> from_row hs (drop 1 ws) i d"
proof -
  from songs_stage_Inr [OF assms(1)] assms(2)
  have loop: "songs_loop hs 2 (drop 1 ws) [] = Inr songs_by_id" by auto
  from songs_loop_Inr [OF loop]
  have keys: "map fst songs_by_id = row_song_ids hs (drop 1 ws)"
    and rows: "\<forall>(i, d) \<in> set songs_by_id. from_row hs (drop 1 ws) i d"
    and dist: "distinct (map fst songs_by_id)"
    by auto
  show "map fst songs_by_id = row_song_ids hs (drop 1 ws)" by (rule keys)
  show "distinct (map fst songs_by_id)" by (rule dist)
  show "from_row hs (drop 1 ws) i d" if "map_of songs_by_id i = Some d" for i d
    using map_of_SomeD [OF that] rows by auto
qed

section \<open>The versions and the glossary sheet\<close>

lemma version_children_Nil [simp]: "version_children hv i [] = []"
  by (simp add: version_children_def)

lemma version_children_blank:
  "blank_row row \<Longrightarrow> version_children hv i (row # rows) = version_children hv i rows"
  by (simp add: version_children_def)

lemma version_children_row:
  "\<not> blank_row row \<Longrightarrow> build_version_dict row hv = Inr (song_id, ver) \<Longrightarrow>
   version_children hv i (row # rows) =
     (if song_id = i then [JObj ver] else []) @ version_children hv i rows"
  by (simp add: version_children_def)

lemma glossary_children_Nil [simp]: "glossary_children hg i [] = []"
  by (simp add: glossary_children_def)

lemma glossary_children_blank:
  "blank_row row \<Longrightarrow> glossary_children hg i (row # rows) = glossary_children hg i rows"
  by (simp add: glossary_children_def)

lemma glossary_children_row:
  "\<not> blank_row row \<Longrightarrow> build_glossary_item row hg = Inr (song_id, item) \<Longrightarrow>
   glossary_children hg i (row # rows) =
     (if song_id = i then [JObj item] else []) @ glossary_children hg i rows"
  by (simp add: glossary_children_def)

lemma build_version_dict_song_id:
  "build_version_dict row hv = Inr (song_id, ver) \<Longrightarrow>
   song_id = py_s (get_cell row hv (lit ''songId''))"
  by (auto simp: build_version_dict_def Let_def py_fail_def split: if_splits)

lemma build_glossary_item_song_id:
  "build_glossary_item row hg = Inr (song_id, item) \<Longrightarrow>
   song_id = py_s (get_cell row hg (lit ''songId''))"
  by (auto simp: build_glossary_item_def Let_def py_fail_def split: if_splits)

text \<open>One pass of the loop over a non-empty row, when the loop as a whole succeeds.\<close>

lemma versions_loop_step:
  assumes "versions_loop hv n (row # rows) songs_by_id seen = Inr result"
    and "\<not> blank_row row"
  obtains song_id ver next_songs next_seen
  where "build_version_dict row hv = Inr (song_id, ver)"
    and "dict_has songs_by_id song_id"
    and "append_child songs_by_id song_id (lit ''versions'') (JObj ver) = Inr next_songs"
    and "versions_loop hv (Suc n) rows next_songs next_seen = Inr result"
  using assms
  by (auto simp: py_fail_def split: sum.splits prod.splits if_splits option.splits json.splits)

lemma glossary_loop_step:
  assumes "glossary_loop L hg n (row # rows) songs_by_id seen = Inr result"
    and "\<not> blank_row row"
  obtains song_id item next_songs next_seen
  where "build_glossary_item row hg = Inr (song_id, item)"
    and "dict_has songs_by_id song_id"
    and "append_child songs_by_id song_id (lit ''glossary'') (JObj item) = Inr next_songs"
    and "glossary_loop L hg (Suc n) rows next_songs next_seen = Inr result"
  using assms
  by (auto simp: py_fail_def split: sum.splits prod.splits if_splits option.splits json.splits)

lemma versions_loop_Inr:
  "versions_loop hv n rows songs_by_id seen = Inr result \<Longrightarrow>
     map fst result = map fst songs_by_id \<and>
     (\<forall>i. map_of result i =
            map_option (\<lambda>d. extend_list d (lit ''versions'') (version_children hv i rows))
              (map_of songs_by_id i)) \<and>
     (\<forall>row \<in> set rows. \<not> blank_row row \<longrightarrow>
        dict_has songs_by_id (py_s (get_cell row hv (lit ''songId''))))"
proof (induction rows arbitrary: n songs_by_id seen)
  case Nil
  then show ?case by (simp add: extend_list_Nil option.map_ident)
next
  case (Cons row rows)
  show ?case
  proof (cases "blank_row row")
    case True
    with Cons.prems have "versions_loop hv (Suc n) rows songs_by_id seen = Inr result" by simp
    from Cons.IH [OF this] True show ?thesis by (simp add: version_children_blank)
  next
    case False
    from versions_loop_step [OF Cons.prems False] obtain song_id ver next_songs next_seen
      where built: "build_version_dict row hv = Inr (song_id, ver)"
        and known: "dict_has songs_by_id song_id"
        and appended: "append_child songs_by_id song_id (lit ''versions'') (JObj ver) = Inr next_songs"
        and rest: "versions_loop hv (Suc n) rows next_songs next_seen = Inr result"
      by blast
    note step = append_child_Inr [OF appended]
    note children = version_children_row [OF False built]
    from Cons.IH [OF rest]
    have keys: "map fst result = map fst next_songs"
      and look: "\<And>i. map_of result i =
            map_option (\<lambda>d. extend_list d (lit ''versions'') (version_children hv i rows))
              (map_of next_songs i)"
      and refs: "\<forall>r \<in> set rows. \<not> blank_row r \<longrightarrow>
            dict_has next_songs (py_s (get_cell r hv (lit ''songId'')))"
      by auto
    have "map fst result = map fst songs_by_id"
      using keys step(1) by simp
    moreover have "map_of result i =
            map_option (\<lambda>d. extend_list d (lit ''versions'') (version_children hv i (row # rows)))
              (map_of songs_by_id i)" for i
      unfolding look step(2) children
      by (cases "i = song_id"; cases "map_of songs_by_id i") (auto simp: extend_list_twice)
    moreover have "\<forall>r \<in> set (row # rows). \<not> blank_row r \<longrightarrow>
            dict_has songs_by_id (py_s (get_cell r hv (lit ''songId'')))"
      using refs known build_version_dict_song_id [OF built] step(1)
      by (auto simp: dict_has_def)
    ultimately show ?thesis by blast
  qed
qed

lemma glossary_loop_Inr:
  "glossary_loop L hg n rows songs_by_id seen = Inr result \<Longrightarrow>
     map fst result = map fst songs_by_id \<and>
     (\<forall>i. map_of result i =
            map_option (\<lambda>d. extend_list d (lit ''glossary'') (glossary_children hg i rows))
              (map_of songs_by_id i)) \<and>
     (\<forall>row \<in> set rows. \<not> blank_row row \<longrightarrow>
        dict_has songs_by_id (py_s (get_cell row hg (lit ''songId''))))"
proof (induction rows arbitrary: n songs_by_id seen)
  case Nil
  then show ?case by (simp add: extend_list_Nil option.map_ident)
next
  case (Cons row rows)
  show ?case
  proof (cases "blank_row row")
    case True
    with Cons.prems have "glossary_loop L hg (Suc n) rows songs_by_id seen = Inr result" by simp
    from Cons.IH [OF this] True show ?thesis by (simp add: glossary_children_blank)
  next
    case False
    from glossary_loop_step [OF Cons.prems False] obtain song_id item next_songs next_seen
      where built: "build_glossary_item row hg = Inr (song_id, item)"
        and known: "dict_has songs_by_id song_id"
        and appended: "append_child songs_by_id song_id (lit ''glossary'') (JObj item) = Inr next_songs"
        and rest: "glossary_loop L hg (Suc n) rows next_songs next_seen = Inr result"
      by blast
    note step = append_child_Inr [OF appended]
    note children = glossary_children_row [OF False built]
    from Cons.IH [OF rest]
    have keys: "map fst result = map fst next_songs"
      and look: "\<And>i. map_of result i =
            map_option (\<lambda>d. extend_list d (lit ''glossary'') (glossary_children hg i rows))
              (map_of next_songs i)"
      and refs: "\<forall>r \<in> set rows. \<not> blank_row r \<longrightarrow>
            dict_has next_songs (py_s (get_cell r hg (lit ''songId'')))"
      by auto
    have "map fst result = map fst songs_by_id"
      using keys step(1) by simp
    moreover have "map_of result i =
            map_option (\<lambda>d. extend_list d (lit ''glossary'') (glossary_children hg i (row # rows)))
              (map_of songs_by_id i)" for i
      unfolding look step(2) children
      by (cases "i = song_id"; cases "map_of songs_by_id i") (auto simp: extend_list_twice)
    moreover have "\<forall>r \<in> set (row # rows). \<not> blank_row r \<longrightarrow>
            dict_has songs_by_id (py_s (get_cell r hg (lit ''songId'')))"
      using refs known build_glossary_item_song_id [OF built] step(1)
      by (auto simp: dict_has_def)
    ultimately show ?thesis by blast
  qed
qed

lemma versions_stage_Inr:
  assumes "versions_stage ws songs_by_id = Inr result"
  obtains hv where "sheet_headers ws = Inr hv"
    and "versions_loop hv 2 (drop 1 ws) songs_by_id Map.empty = Inr result"
  using assms
  by (auto simp: versions_stage_def and_then_def py_fail_def split: sum.splits if_splits)

lemma glossary_stage_Inr:
  assumes "glossary_stage L ws songs_by_id = Inr result"
  obtains hg where "sheet_headers ws = Inr hg"
    and "glossary_loop L hg 2 (drop 1 ws) songs_by_id Map.empty = Inr result"
  using assms
  by (auto simp: glossary_stage_def and_then_def py_fail_def split: sum.splits if_splits)

section \<open>The sorted song list\<close>

lemma sorted_songs_eq:
  "sorted_songs songs_by_id = map (\<lambda>k. the (map_of songs_by_id k)) (sort (map fst songs_by_id))"
proof -
  have "filter (\<lambda>k. map_of songs_by_id k \<noteq> None) (sort (map fst songs_by_id)) =
          sort (map fst songs_by_id)"
    by (rule filter_True) (simp add: map_of_eq_None_iff)
  then show ?thesis
    by (simp add: sorted_songs_def List.map_filter_def comp_def)
qed

lemma build_songs_Inr:
  assumes "build_songs L inp = Inr (cv, base, songs)"
  obtains wb ws_meta ws_songs ws_versions ws_glossary songs_by_id with_versions with_glossary
  where "inp = Some wb"
    and "map_of wb (lit ''meta'') = Some ws_meta"
    and "read_catalog_meta L ws_meta = Inr (cv, base)"
    and "map_of wb (lit ''songs'') = Some ws_songs"
    and "songs_stage ws_songs = Inr songs_by_id"
    and "map_of wb (lit ''versions'') = Some ws_versions"
    and "versions_stage ws_versions songs_by_id = Inr with_versions"
    and "map_of wb (lit ''glossary'') = Some ws_glossary"
    and "glossary_stage L ws_glossary with_versions = Inr with_glossary"
    and "songs = sorted_songs with_glossary"
  using assms
  by (auto simp: build_songs_def and_then_def wb_sheet_def py_fail_def
        split: option.splits sum.splits prod.splits)

lemma build_songs_stages:
  assumes "build_songs L (Some wb) = Inr (cv, base, songs)"
    and "map_of wb (lit ''songs'') = Some ws_songs"
    and "map_of wb (lit ''versions'') = Some ws_versions"
    and "map_of wb (lit ''glossary'') = Some ws_glossary"
  obtains songs_by_id with_versions with_glossary
  where "songs_stage ws_songs = Inr songs_by_id"
    and "versions_stage ws_versions songs_by_id = Inr with_versions"
    and "glossary_stage L ws_glossary with_versions = Inr with_glossary"
    and "songs = sorted_songs with_glossary"
  using assms
  by (auto simp: build_songs_def and_then_def wb_sheet_def py_fail_def
        split: option.splits sum.splits prod.splits)

text \<open>The songs of a valid workbook: the keys of the final dictionary of songs are the
  ids of the rows, and each song is the record built from a row, with the version
  records and the glossary items of that song appended.\<close>

lemma build_songs_songs:
  assumes built: "build_songs L (Some wb) = Inr (cv, base, songs)"
    and ws_songs: "map_of wb (lit ''songs'') = Some ws_songs"
    and hs: "sheet_headers ws_songs = Inr hs"
    and ws_versions: "map_of wb (lit ''versions'') = Some ws_versions"
    and hv: "sheet_headers ws_versions = Inr hv"
    and ws_glossary: "map_of wb (lit ''glossary'') = Some ws_glossary"
    and hg: "sheet_headers ws_glossary = Inr hg"
  obtains final where "songs = map (\<lambda>k. the (final k)) (sort (row_song_ids hs (drop 1 ws_songs)))"
    and "distinct (row_song_ids hs (drop 1 ws_songs))"
    and "\<And>k. k \<in> set (row_song_ids hs (drop 1 ws_songs)) \<Longrightarrow>
           \<exists>d. from_row hs (drop 1 ws_songs) k d \<and>
               final k = Some (extend_list
                 (extend_list d (lit ''versions'') (version_children hv k (drop 1 ws_versions)))
                 (lit ''glossary'') (glossary_children hg k (drop 1 ws_glossary)))"
proof -
  from build_songs_stages [OF built ws_songs ws_versions ws_glossary]
  obtain songs_by_id with_versions with_glossary
    where s1: "songs_stage ws_songs = Inr songs_by_id"
      and s2: "versions_stage ws_versions songs_by_id = Inr with_versions"
      and s3: "glossary_stage L ws_glossary with_versions = Inr with_glossary"
      and out: "songs = sorted_songs with_glossary"
    by blast
  note songs = songs_stage_facts [OF s1 hs]
  from versions_stage_Inr [OF s2] hv
  have "versions_loop hv 2 (drop 1 ws_versions) songs_by_id Map.empty = Inr with_versions"
    by auto
  note v = versions_loop_Inr [OF this]
  from glossary_stage_Inr [OF s3] hg
  have "glossary_loop L hg 2 (drop 1 ws_glossary) with_versions Map.empty = Inr with_glossary"
    by auto
  note g = glossary_loop_Inr [OF this]
  have keys: "map fst with_glossary = row_song_ids hs (drop 1 ws_songs)"
    using g v songs(1) by simp
  have "songs = map (\<lambda>k. the (map_of with_glossary k)) (sort (row_song_ids hs (drop 1 ws_songs)))"
    unfolding out sorted_songs_eq keys ..
  moreover have "distinct (row_song_ids hs (drop 1 ws_songs))"
    using songs(1,2) by simp
  moreover have "\<exists>d. from_row hs (drop 1 ws_songs) k d \<and>
               map_of with_glossary k = Some (extend_list
                 (extend_list d (lit ''versions'') (version_children hv k (drop 1 ws_versions)))
                 (lit ''glossary'') (glossary_children hg k (drop 1 ws_glossary)))"
    if "k \<in> set (row_song_ids hs (drop 1 ws_songs))" for k
  proof -
    from that songs(1) have "k \<in> set (map fst songs_by_id)" by simp
    then have "map_of songs_by_id k \<noteq> None"
      by (simp add: map_of_eq_None_iff)
    then obtain d where d: "map_of songs_by_id k = Some d"
      by blast
    from songs(3) [OF d] have "from_row hs (drop 1 ws_songs) k d" .
    moreover from g v d have "map_of with_glossary k = Some (extend_list
                 (extend_list d (lit ''versions'') (version_children hv k (drop 1 ws_versions)))
                 (lit ''glossary'') (glossary_children hg k (drop 1 ws_glossary)))"
      by simp
    ultimately show ?thesis by blast
  qed
  ultimately show thesis by (rule that)
qed

section \<open>The order of the output\<close>

lemma final_song:
  assumes "from_row hs rows k d"
  shows "song_id_of (extend_list (extend_list d (lit ''versions'') vs) (lit ''glossary'') gs) = k"
    and "map fst (extend_list (extend_list d (lit ''versions'') vs) (lit ''glossary'') gs) =
           song_keys"
    and "map_of (extend_list (extend_list d (lit ''versions'') vs) (lit ''glossary'') gs)
           (lit ''versions'') = Some (JArr vs)"
    and "map_of (extend_list (extend_list d (lit ''versions'') vs) (lit ''glossary'') gs)
           (lit ''glossary'') = Some (JArr gs)"
proof -
  from assms obtain row where built: "build_song_dict row hs = Inr d"
    and k: "k = py_s (get_cell row hs (lit ''id''))"
    by (auto simp: from_row_def)
  note d = build_song_dict_Inr [OF built]
  show "song_id_of (extend_list (extend_list d (lit ''versions'') vs) (lit ''glossary'') gs) = k"
    by (simp add: song_id_of_def map_of_extend_list d(2) k)
  show "map fst (extend_list (extend_list d (lit ''versions'') vs) (lit ''glossary'') gs) =
           song_keys"
    by (simp add: extend_list_keys d(1))
  show "map_of (extend_list (extend_list d (lit ''versions'') vs) (lit ''glossary'') gs)
           (lit ''versions'') = Some (JArr vs)"
    by (simp add: map_of_extend_list d(4))
  show "map_of (extend_list (extend_list d (lit ''versions'') vs) (lit ''glossary'') gs)
           (lit ''glossary'') = Some (JArr gs)"
    by (simp add: map_of_extend_list d(5))
qed

text \<open>
  Claim C5. For a valid workbook, the ids of the output song list are the ids of the
  non-empty rows of the songs sheet, sorted: strictly increasing in the lexicographic
  order of code points, whatever the order of the rows. Under the key \<^verbatim>\<open>versions\<close> each
  song holds exactly the version records its rows of the versions sheet give, in sheet
  order, and under \<^verbatim>\<open>glossary\<close> the items its rows of the glossary sheet give, in sheet
  order.
\<close>

theorem output_order:
  assumes "build_songs L (Some wb) = Inr (cv, base, songs)"
    and "map_of wb (lit ''songs'') = Some ws_songs"
    and "sheet_headers ws_songs = Inr hs"
    and "map_of wb (lit ''versions'') = Some ws_versions"
    and "sheet_headers ws_versions = Inr hv"
    and "map_of wb (lit ''glossary'') = Some ws_glossary"
    and "sheet_headers ws_glossary = Inr hg"
  shows "map song_id_of songs = sort (row_song_ids hs (drop 1 ws_songs)) \<and>
         sorted_wrt (<) (map song_id_of songs) \<and>
         (\<forall>song \<in> set songs.
            map_of song (lit ''versions'') =
              Some (JArr (version_children hv (song_id_of song) (drop 1 ws_versions))) \<and>
            map_of song (lit ''glossary'') =
              Some (JArr (glossary_children hg (song_id_of song) (drop 1 ws_glossary))))"
proof -
  let ?ids = "row_song_ids hs (drop 1 ws_songs)"
  from build_songs_songs [OF assms] obtain final
    where songs: "songs = map (\<lambda>k. the (final k)) (sort ?ids)"
      and dist: "distinct ?ids"
      and final: "\<And>k. k \<in> set ?ids \<Longrightarrow>
           \<exists>d. from_row hs (drop 1 ws_songs) k d \<and>
               final k = Some (extend_list
                 (extend_list d (lit ''versions'') (version_children hv k (drop 1 ws_versions)))
                 (lit ''glossary'') (glossary_children hg k (drop 1 ws_glossary)))"
    by blast
  have id: "song_id_of (the (final k)) = k" if "k \<in> set ?ids" for k
    using final [OF that] by (auto simp: final_song(1))
  have "map (\<lambda>k. song_id_of (the (final k))) (sort ?ids) = map (\<lambda>k. k) (sort ?ids)"
    by (rule map_cong) (simp_all add: id)
  then have ids: "map song_id_of songs = sort ?ids"
    unfolding songs by (simp add: comp_def)
  have strict: "sorted_wrt (<) (map song_id_of songs)"
    unfolding ids using dist by (simp add: strict_sorted_iff)
  have children: "map_of song (lit ''versions'') =
              Some (JArr (version_children hv (song_id_of song) (drop 1 ws_versions))) \<and>
            map_of song (lit ''glossary'') =
              Some (JArr (glossary_children hg (song_id_of song) (drop 1 ws_glossary)))"
    if "song \<in> set songs" for song
  proof -
    from that obtain k where k: "k \<in> set ?ids" and song: "song = the (final k)"
      unfolding songs by auto
    from final [OF k] obtain d where d: "from_row hs (drop 1 ws_songs) k d"
      and fk: "final k = Some (extend_list
                 (extend_list d (lit ''versions'') (version_children hv k (drop 1 ws_versions)))
                 (lit ''glossary'') (glossary_children hg k (drop 1 ws_glossary)))"
      by blast
    show ?thesis
      unfolding song fk option.sel final_song(1) [OF d]
      by (simp add: final_song(3,4) [OF d])
  qed
  from ids strict children show ?thesis by blast
qed

lemma sample_sheets_lookup:
  "map_of sample_workbook (lit ''songs'') = Some sample_songs_sheet"
  "map_of sample_workbook (lit ''versions'') = Some sample_versions_sheet"
  "map_of sample_workbook (lit ''glossary'') = Some sample_glossary_sheet"
  by (simp_all add: sample_workbook_def)

lemma sample_headers:
  "sheet_headers sample_songs_sheet = Inr (enum_headers 0 (hd sample_songs_sheet) Map.empty)"
  "sheet_headers sample_versions_sheet = Inr (enum_headers 0 (hd sample_versions_sheet) Map.empty)"
  "sheet_headers sample_glossary_sheet = Inr (enum_headers 0 (hd sample_glossary_sheet) Map.empty)"
  by (simp_all add: sheet_headers_def sample_songs_sheet_def sample_versions_sheet_def
        sample_glossary_sheet_def)

theorem output_order_witness:
  "build_songs sample_lib (Some sample_workbook) = Inr (1, lit ''https://m/'', sample_songs) \<and>
   row_song_ids (enum_headers 0 (hd sample_songs_sheet) Map.empty) (drop 1 sample_songs_sheet) =
     [lit ''b'', lit ''a''] \<and>
   map song_id_of sample_songs = [lit ''a'', lit ''b''] \<and>
   map_of (sample_songs ! 0) (lit ''versions'') =
     Some (JArr (version_children (enum_headers 0 (hd sample_versions_sheet) Map.empty) (lit ''a'')
                   (drop 1 sample_versions_sheet)))"
proof -
  have rows: "row_song_ids (enum_headers 0 (hd sample_songs_sheet) Map.empty)
      (drop 1 sample_songs_sheet) = [lit ''b'', lit ''a'']"
    by (simp add: row_song_ids_def sample_songs_sheet_def eval_cells
          del: lit_eq_iff lit_Nil_iff lit_append lit_append_assoc)
  have sorted: "sort [lit ''b'', lit ''a''] = [lit ''a'', lit ''b'']"
    by (simp add: lit_def)
  have first: "sample_songs ! 0 \<in> set sample_songs" and id: "song_id_of (sample_songs ! 0) = lit ''a''"
    by (simp_all add: sample_songs_def song_id_of_def)
  from output_order [OF sample_build sample_sheets_lookup(1) sample_headers(1)
      sample_sheets_lookup(2) sample_headers(2) sample_sheets_lookup(3) sample_headers(3)]
    sample_build rows sorted first id
  show ?thesis by (auto simp del: lit_eq_iff)
qed

section \<open>The keys of a song record\<close>

lemma build_songs_sheets:
  assumes "build_songs L (Some wb) = Inr (cv, base, songs)"
  obtains ws_versions hv ws_glossary hg
  where "map_of wb (lit ''versions'') = Some ws_versions"
    and "sheet_headers ws_versions = Inr hv"
    and "map_of wb (lit ''glossary'') = Some ws_glossary"
    and "sheet_headers ws_glossary = Inr hg"
proof -
  from build_songs_Inr [OF assms] obtain ws_versions ws_glossary songs_by_id with_versions
      with_glossary
    where v: "map_of wb (lit ''versions'') = Some ws_versions"
      and sv: "versions_stage ws_versions songs_by_id = Inr with_versions"
      and g: "map_of wb (lit ''glossary'') = Some ws_glossary"
      and sg: "glossary_stage L ws_glossary with_versions = Inr with_glossary"
    by (metis option.inject)
  from versions_stage_Inr [OF sv] obtain hv where hv: "sheet_headers ws_versions = Inr hv"
    by blast
  from glossary_stage_Inr [OF sg] obtain hg where hg: "sheet_headers ws_glossary = Inr hg"
    by blast
  from v hv g hg show thesis by (rule that)
qed

lemma final_song_scalars:
  assumes "from_row hs rows k d"
  shows "\<exists>row \<in> set rows. \<not> list_all blank_cell row \<and>
           (\<forall>key \<in> set copied_keys.
              \<exists>v. map_of (extend_list (extend_list d (lit ''versions'') vs) (lit ''glossary'') gs)
                     key = Some (JStr v) \<and>
                  cell_value (get_cell row hs key) [] v) \<and>
           (\<exists>v. map_of (extend_list (extend_list d (lit ''versions'') vs) (lit ''glossary'') gs)
                   (lit ''languageTag'') = Some (JStr v) \<and>
                cell_value (get_cell row hs (lit ''languageTag'')) default_language_tag v) \<and>
           (\<exists>v. map_of (extend_list (extend_list d (lit ''versions'') vs) (lit ''glossary'') gs)
                   (lit ''rightsStatus'') = Some (JStr v) \<and>
                cell_value (get_cell row hs (lit ''rightsStatus'')) (lit ''NONE'') v)"
proof -
  from assms obtain row where row: "row \<in> set rows" "\<not> list_all blank_cell row"
    and built: "build_song_dict row hs = Inr d"
    by (auto simp: from_row_def blank_row_iff)
  note d = build_song_dict_Inr [OF built]
  have other: "key \<noteq> lit ''versions'' \<and> key \<noteq> lit ''glossary''" if "key \<in> set copied_keys" for key
    using that by (auto simp: copied_keys_def)
  have "\<forall>key \<in> set copied_keys.
          \<exists>v. map_of (extend_list (extend_list d (lit ''versions'') vs) (lit ''glossary'') gs)
                 key = Some (JStr v) \<and>
              cell_value (get_cell row hs key) [] v"
    using other d(6) by (simp add: map_of_extend_list cell_value_py_s)
  moreover have "\<exists>v. map_of (extend_list (extend_list d (lit ''versions'') vs) (lit ''glossary'') gs)
                   (lit ''languageTag'') = Some (JStr v) \<and>
                cell_value (get_cell row hs (lit ''languageTag'')) default_language_tag v"
    using cell_value_default [of "get_cell row hs (lit ''languageTag'')" default_language_tag]
    by (simp add: map_of_extend_list d(7))
  moreover have "\<exists>v. map_of (extend_list (extend_list d (lit ''versions'') vs) (lit ''glossary'') gs)
                   (lit ''rightsStatus'') = Some (JStr v) \<and>
                cell_value (get_cell row hs (lit ''rightsStatus'')) (lit ''NONE'') v"
    using cell_value_default [of "get_cell row hs (lit ''rightsStatus'')" "lit ''NONE''"]
    by (simp add: map_of_extend_list d(8))
  ultimately show ?thesis using row by blast
qed

text \<open>
  Claim C9. Every song record of the output of a valid workbook has the nineteen keys of
  the dict literal of \<^verbatim>\<open>build_song_dict\<close>, in that order, so all fifteen scalar keys.
  The record comes from a non-empty row of the songs sheet. Under each of the thirteen
  copied keys it holds a string: the empty string when the cell is blank (missing,
  empty or white space only), and otherwise the text of the cell without the white
  space at its two ends. Under \<^verbatim>\<open>languageTag\<close> and \<^verbatim>\<open>rightsStatus\<close> it holds the fixed
  default when the cell is blank, and otherwise the text of the cell without the white
  space at its two ends.
\<close>

theorem song_record_has_all_keys:
  assumes "build_songs L (Some wb) = Inr (cv, base, songs)"
    and "map_of wb (lit ''songs'') = Some ws_songs"
    and "sheet_headers ws_songs = Inr hs"
    and "song \<in> set songs"
  shows "map fst song = song_keys \<and>
         (\<exists>row \<in> set (drop 1 ws_songs). \<not> list_all blank_cell row \<and>
            (\<forall>key \<in> set copied_keys.
               \<exists>v. map_of song key = Some (JStr v) \<and> cell_value (get_cell row hs key) [] v) \<and>
            (\<exists>v. map_of song (lit ''languageTag'') = Some (JStr v) \<and>
                 cell_value (get_cell row hs (lit ''languageTag'')) default_language_tag v) \<and>
            (\<exists>v. map_of song (lit ''rightsStatus'') = Some (JStr v) \<and>
                 cell_value (get_cell row hs (lit ''rightsStatus'')) (lit ''NONE'') v))"
proof -
  from build_songs_sheets [OF assms(1)] obtain ws_versions hv ws_glossary hg
    where v: "map_of wb (lit ''versions'') = Some ws_versions" "sheet_headers ws_versions = Inr hv"
      and g: "map_of wb (lit ''glossary'') = Some ws_glossary" "sheet_headers ws_glossary = Inr hg"
    by blast
  let ?ids = "row_song_ids hs (drop 1 ws_songs)"
  from build_songs_songs [OF assms(1) assms(2) assms(3) v g] obtain final
    where songs: "songs = map (\<lambda>k. the (final k)) (sort ?ids)"
      and final: "\<And>k. k \<in> set ?ids \<Longrightarrow>
           \<exists>d. from_row hs (drop 1 ws_songs) k d \<and>
               final k = Some (extend_list
                 (extend_list d (lit ''versions'') (version_children hv k (drop 1 ws_versions)))
                 (lit ''glossary'') (glossary_children hg k (drop 1 ws_glossary)))"
    by blast
  from assms(4) obtain k where k: "k \<in> set ?ids" and song: "song = the (final k)"
    unfolding songs by auto
  from final [OF k] obtain d where d: "from_row hs (drop 1 ws_songs) k d"
    and fk: "final k = Some (extend_list
                 (extend_list d (lit ''versions'') (version_children hv k (drop 1 ws_versions)))
                 (lit ''glossary'') (glossary_children hg k (drop 1 ws_glossary)))"
    by blast
  show ?thesis
    unfolding song fk option.sel
    using final_song(2) [OF d] final_song_scalars [OF d] by blast
qed

lemma spaced_build:
  "build_songs sample_lib (Some spaced_workbook) = Inr (1, lit ''https://m/'', [spaced_song])"
  by (simp add: build_songs_def spaced_workbook_def spaced_songs_sheet_def
        wb_sheet_def read_catalog_meta_def
        read_meta_def songs_stage_def versions_stage_def glossary_stage_def sheet_headers_def
        build_song_dict_def sorted_songs_def List.map_filter_def
        sample_lib_def ascii_int_def spaced_song_def default_language_tag_def
        eval_cells del: lit_eq_iff lit_Nil_iff lit_append lit_append_assoc)

text \<open>The song of the workbook with white space in its cells: the record has all keys,
  the id and the rights status without the spaces around them, the empty string for
  the genre of two spaces and for the missing column \<^verbatim>\<open>audioUrl\<close>, and the default
  language tag for the cell of a space and a tab.\<close>

theorem song_record_has_all_keys_witness:
  "build_songs sample_lib (Some spaced_workbook) = Inr (1, lit ''https://m/'', [spaced_song]) \<and>
   map_of spaced_workbook (lit ''songs'') = Some spaced_songs_sheet \<and>
   spaced_song \<in> set [spaced_song] \<and>
   map fst spaced_song = song_keys \<and>
   spaced_songs_sheet ! 1 =
     [Some (lit '' s1 ''), Some (lit ''T''), Some (lit ''h''), Some (lit ''l''), Some [32, 32],
      Some [32, 9], Some (lit '' CC '')] \<and>
   map_of spaced_song (lit ''id'') = Some (JStr (lit ''s1'')) \<and>
   cell_value (Some (lit '' s1 '')) [] (lit ''s1'') \<and>
   map_of spaced_song (lit ''genre'') = Some (JStr []) \<and>
   cell_value (Some [32, 32]) [] [] \<and>
   map_of spaced_song (lit ''audioUrl'') = Some (JStr []) \<and>
   map_of spaced_song (lit ''languageTag'') = Some (JStr default_language_tag) \<and>
   cell_value (Some [32, 9]) default_language_tag default_language_tag \<and>
   map_of spaced_song (lit ''rightsStatus'') = Some (JStr (lit ''CC'')) \<and>
   cell_value (Some (lit '' CC '')) (lit ''NONE'') (lit ''CC'')"
proof -
  let ?hs = "enum_headers 0 (hd spaced_songs_sheet) Map.empty"
  have lookup: "map_of spaced_workbook (lit ''songs'') = Some spaced_songs_sheet"
    by (simp add: spaced_workbook_def)
  have headers: "sheet_headers spaced_songs_sheet = Inr ?hs"
    by (simp add: sheet_headers_def spaced_songs_sheet_def)
  have member: "spaced_song \<in> set [spaced_song]"
    by simp
  have row: "spaced_songs_sheet ! 1 =
      [Some (lit '' s1 ''), Some (lit ''T''), Some (lit ''h''), Some (lit ''l''), Some [32, 32],
       Some [32, 9], Some (lit '' CC '')]"
    by (simp add: spaced_songs_sheet_def cells_def lit_def)
  have rows: "drop 1 spaced_songs_sheet = [spaced_songs_sheet ! 1]"
    by (simp add: spaced_songs_sheet_def)
  have cells: "get_cell (spaced_songs_sheet ! 1) ?hs (lit ''id'') = Some (lit '' s1 '')"
      "get_cell (spaced_songs_sheet ! 1) ?hs (lit ''genre'') = Some [32, 32]"
      "get_cell (spaced_songs_sheet ! 1) ?hs (lit ''languageTag'') = Some [32, 9]"
      "get_cell (spaced_songs_sheet ! 1) ?hs (lit ''rightsStatus'') = Some (lit '' CC '')"
    by (simp_all add: spaced_songs_sheet_def eval_cells
          del: lit_eq_iff lit_Nil_iff lit_append lit_append_assoc)
  have keys: "lit ''id'' \<in> set copied_keys" "lit ''genre'' \<in> set copied_keys"
    by (simp_all add: copied_keys_def)
  have vals: "map_of spaced_song (lit ''id'') = Some (JStr (lit ''s1''))"
      "map_of spaced_song (lit ''genre'') = Some (JStr [])"
      "map_of spaced_song (lit ''audioUrl'') = Some (JStr [])"
      "map_of spaced_song (lit ''languageTag'') = Some (JStr default_language_tag)"
      "map_of spaced_song (lit ''rightsStatus'') = Some (JStr (lit ''CC''))"
    by (simp_all add: spaced_song_def)
  note general = song_record_has_all_keys [OF spaced_build lookup headers member]
  from general have all: "map fst spaced_song = song_keys"
    by (rule conjunct1)
  from general [THEN conjunct2]
  have copied: "\<forall>key \<in> set copied_keys.
               \<exists>v. map_of spaced_song key = Some (JStr v) \<and>
                   cell_value (get_cell (spaced_songs_sheet ! 1) ?hs key) [] v"
    and tag: "\<exists>v. map_of spaced_song (lit ''languageTag'') = Some (JStr v) \<and>
                 cell_value (get_cell (spaced_songs_sheet ! 1) ?hs (lit ''languageTag''))
                   default_language_tag v"
    and rights: "\<exists>v. map_of spaced_song (lit ''rightsStatus'') = Some (JStr v) \<and>
                 cell_value (get_cell (spaced_songs_sheet ! 1) ?hs (lit ''rightsStatus''))
                   (lit ''NONE'') v"
    unfolding rows by simp_all
  from copied [rule_format, OF keys(1)] vals(1) cells(1)
  have c1: "cell_value (Some (lit '' s1 '')) [] (lit ''s1'')" by simp
  from copied [rule_format, OF keys(2)] vals(2) cells(2)
  have c2: "cell_value (Some [32, 32]) [] []" by simp
  from tag vals(4) cells(3)
  have c3: "cell_value (Some [32, 9]) default_language_tag default_language_tag" by simp
  from rights vals(5) cells(4)
  have c4: "cell_value (Some (lit '' CC '')) (lit ''NONE'') (lit ''CC'')" by simp
  from spaced_build lookup member all row vals c1 c2 c3 c4 show ?thesis
    by (intro conjI)
qed

section \<open>References to unknown songs\<close>

text \<open>A row that the loop passes leaves the keys of the dictionary of songs as they are,
  and what the loop does with the rows after it does not depend on them.\<close>

lemma versions_loop_pass:
  assumes "versions_loop hv n (row # rows) songs_by_id seen = Inr result"
  obtains next_songs next_seen
  where "map fst next_songs = map fst songs_by_id"
    and "\<And>rest. versions_loop hv n (row # rest) songs_by_id seen =
                 versions_loop hv (Suc n) rest next_songs next_seen"
proof (cases "blank_row row")
  case True
  then have "versions_loop hv n (row # rest) songs_by_id seen =
               versions_loop hv (Suc n) rest songs_by_id seen" for rest
    by simp
  then show thesis by (rule that [OF refl])
next
  case False
  from versions_loop_step [OF assms False] obtain song_id ver next_songs next_seen
    where built: "build_version_dict row hv = Inr (song_id, ver)"
      and known: "dict_has songs_by_id song_id"
      and appended: "append_child songs_by_id song_id (lit ''versions'') (JObj ver) = Inr next_songs"
    by blast
  from assms False built known appended obtain ver_id
    where ver_id: "map_of ver (lit ''id'') = Some (JStr ver_id)"
      and fresh: "ver_id \<notin> seen_of seen song_id"
    by (auto simp: py_fail_def split: option.splits json.splits if_splits)
  have "versions_loop hv n (row # rest) songs_by_id seen =
          versions_loop hv (Suc n) rest next_songs
            (seen(song_id \<mapsto> insert ver_id (seen_of seen song_id)))" for rest
    using False built known appended ver_id fresh by simp
  with append_child_Inr(1) [OF appended] show thesis by (rule that)
qed

lemma glossary_loop_pass:
  assumes "glossary_loop L hg n (row # rows) songs_by_id seen = Inr result"
  obtains next_songs next_seen
  where "map fst next_songs = map fst songs_by_id"
    and "\<And>rest. glossary_loop L hg n (row # rest) songs_by_id seen =
                 glossary_loop L hg (Suc n) rest next_songs next_seen"
proof (cases "blank_row row")
  case True
  then have "glossary_loop L hg n (row # rest) songs_by_id seen =
               glossary_loop L hg (Suc n) rest songs_by_id seen" for rest
    by simp
  then show thesis by (rule that [OF refl])
next
  case False
  from glossary_loop_step [OF assms False] obtain song_id item next_songs next_seen
    where built: "build_glossary_item row hg = Inr (song_id, item)"
      and known: "dict_has songs_by_id song_id"
      and appended: "append_child songs_by_id song_id (lit ''glossary'') (JObj item) = Inr next_songs"
    by blast
  from assms False built known appended obtain name
    where name: "map_of item (lit ''term'') = Some (JStr name)"
      and fresh: "str_lower L (strip name) \<notin> seen_of seen song_id"
    by (auto simp: py_fail_def split: option.splits json.splits if_splits)
  have "glossary_loop L hg n (row # rest) songs_by_id seen =
          glossary_loop L hg (Suc n) rest next_songs
            (seen(song_id \<mapsto> insert (str_lower L (strip name)) (seen_of seen song_id)))" for rest
    using False built known appended name fresh by simp
  with append_child_Inr(1) [OF appended] show thesis by (rule that)
qed

text \<open>The first row that refers to an unknown song ends the loop with the
  unknown-reference error, which names the \<^verbatim>\<open>songId\<close> and the row.\<close>

lemma versions_loop_unknown:
  "versions_loop hv n pre songs_by_id seen = Inr passed \<Longrightarrow> \<not> blank_row row \<Longrightarrow>
   build_version_dict row hv = Inr (song_id, ver) \<Longrightarrow> \<not> dict_has songs_by_id song_id \<Longrightarrow>
   versions_loop hv n (pre @ row # post) songs_by_id seen =
     py_fail (lit ''versions: unknown songId '' @ apos @ song_id @ apos @
              lit '' (row '' @ str_nat (n + length pre) @ lit '')'')"
proof (induction pre arbitrary: n songs_by_id seen)
  case Nil
  then show ?case by simp
next
  case (Cons r pre)
  from versions_loop_pass [OF Cons.prems(1)] obtain next_songs next_seen
    where keys: "map fst next_songs = map fst songs_by_id"
      and step: "\<And>rest. versions_loop hv n (r # rest) songs_by_id seen =
                 versions_loop hv (Suc n) rest next_songs next_seen"
    by blast
  from Cons.prems(1) have "versions_loop hv (Suc n) pre next_songs next_seen = Inr passed"
    by (simp only: step)
  moreover from Cons.prems(4) keys have "\<not> dict_has next_songs song_id"
    by (simp add: dict_has_def)
  ultimately have "versions_loop hv (Suc n) (pre @ row # post) next_songs next_seen =
     py_fail (lit ''versions: unknown songId '' @ apos @ song_id @ apos @
              lit '' (row '' @ str_nat (Suc n + length pre) @ lit '')'')"
    using Cons.prems(2,3) by (intro Cons.IH)
  then show ?case by (simp only: append_Cons step) simp
qed

lemma glossary_loop_unknown:
  "glossary_loop L hg n pre songs_by_id seen = Inr passed \<Longrightarrow> \<not> blank_row row \<Longrightarrow>
   build_glossary_item row hg = Inr (song_id, item) \<Longrightarrow> \<not> dict_has songs_by_id song_id \<Longrightarrow>
   glossary_loop L hg n (pre @ row # post) songs_by_id seen =
     py_fail (lit ''glossary: unknown songId '' @ apos @ song_id @ apos @
              lit '' (row '' @ str_nat (n + length pre) @ lit '')'')"
proof (induction pre arbitrary: n songs_by_id seen)
  case Nil
  then show ?case by simp
next
  case (Cons r pre)
  from glossary_loop_pass [OF Cons.prems(1)] obtain next_songs next_seen
    where keys: "map fst next_songs = map fst songs_by_id"
      and step: "\<And>rest. glossary_loop L hg n (r # rest) songs_by_id seen =
                 glossary_loop L hg (Suc n) rest next_songs next_seen"
    by blast
  from Cons.prems(1) have "glossary_loop L hg (Suc n) pre next_songs next_seen = Inr passed"
    by (simp only: step)
  moreover from Cons.prems(4) keys have "\<not> dict_has next_songs song_id"
    by (simp add: dict_has_def)
  ultimately have "glossary_loop L hg (Suc n) (pre @ row # post) next_songs next_seen =
     py_fail (lit ''glossary: unknown songId '' @ apos @ song_id @ apos @
              lit '' (row '' @ str_nat (Suc n + length pre) @ lit '')'')"
    using Cons.prems(2,3) by (intro Cons.IH)
  then show ?case by (simp only: append_Cons step) simp
qed

lemma nonempty_cell_has_column: "py_s (get_cell row h k) \<noteq> [] \<Longrightarrow> h k \<noteq> None"
  by (auto simp: get_cell_def py_s_def split: option.splits)

lemma check_sheets_ok:
  "\<forall>name \<in> set names. map_of wb name \<noteq> None \<Longrightarrow> check_sheets wb names = Inr ()"
  by (induction names) (simp_all add: dict_has_iff)

lemma check_cols_ok:
  "\<forall>col \<in> set cols. h col \<noteq> None \<Longrightarrow> check_cols sheet_name h cols = Inr ()"
  by (induction cols) auto

lemma build_glossary_item_Inr:
  assumes "build_glossary_item row hg = Inr (song_id, item)"
  shows "song_id = py_s (get_cell row hg (lit ''songId''))"
    and "song_id \<noteq> []"
    and "py_s (get_cell row hg (lit ''term'')) \<noteq> []"
    and "py_s (get_cell row hg (lit ''definition'')) \<noteq> []"
  using assms by (auto simp: build_glossary_item_def Let_def py_fail_def split: if_splits)

text \<open>A run whose sheets exist and whose meta and songs sheets are valid goes on with
  the versions sheet and then the glossary sheet.\<close>

lemma build_songs_after_songs:
  assumes "map_of wb (lit ''meta'') = Some ws_meta"
    and "read_catalog_meta L ws_meta = Inr (cv, base)"
    and "map_of wb (lit ''songs'') = Some ws_songs"
    and "songs_stage ws_songs = Inr songs_by_id"
    and "map_of wb (lit ''versions'') = Some ws_versions"
    and "map_of wb (lit ''glossary'') = Some ws_glossary"
  shows "build_songs L (Some wb) =
           and_then (versions_stage ws_versions songs_by_id) (\<lambda>with_versions.
           and_then (glossary_stage L ws_glossary with_versions) (\<lambda>with_glossary.
             Inr (cv, base, sorted_songs with_glossary)))"
proof -
  have "check_sheets wb [lit ''meta'', lit ''songs'', lit ''versions'', lit ''glossary''] = Inr ()"
    using assms by (intro check_sheets_ok) simp
  with assms show ?thesis
    by (simp add: build_songs_def and_then_def wb_sheet_def)
qed

lemma main_build_error: "build_songs L inp = Inl e \<Longrightarrow> main L E inp fs = (Inl e, fs)"
  by (simp add: main_def)

lemma versions_stage_unknown:
  assumes "sheet_headers ws_versions = Inr hv"
    and "drop 1 ws_versions = pre @ row # post"
    and "versions_loop hv 2 pre songs_by_id Map.empty = Inr passed"
    and "\<not> blank_row row"
    and "build_version_dict row hv = Inr (song_id, ver)"
    and "\<not> dict_has songs_by_id song_id"
  shows "versions_stage ws_versions songs_by_id =
           py_fail (lit ''versions: unknown songId '' @ apos @ song_id @ apos @
                    lit '' (row '' @ str_nat (2 + length pre) @ lit '')'')"
proof -
  note row = build_version_dict_Inr [OF assms(5)]
  from row(1,2) have "hv (lit ''songId'') \<noteq> None"
    by (intro nonempty_cell_has_column [of row]) simp
  moreover from row(3) have "hv (lit ''id'') \<noteq> None"
    by (rule nonempty_cell_has_column)
  ultimately show ?thesis
    using assms(1,2) versions_loop_unknown [OF assms(3) assms(4) assms(5) assms(6), of post]
    by (auto simp: versions_stage_def and_then_def)
qed

lemma glossary_stage_unknown:
  assumes "sheet_headers ws_glossary = Inr hg"
    and "drop 1 ws_glossary = pre @ row # post"
    and "glossary_loop L hg 2 pre songs_by_id Map.empty = Inr passed"
    and "\<not> blank_row row"
    and "build_glossary_item row hg = Inr (song_id, item)"
    and "\<not> dict_has songs_by_id song_id"
  shows "glossary_stage L ws_glossary songs_by_id =
           py_fail (lit ''glossary: unknown songId '' @ apos @ song_id @ apos @
                    lit '' (row '' @ str_nat (2 + length pre) @ lit '')'')"
proof -
  note row = build_glossary_item_Inr [OF assms(5)]
  from row(1,2) have "hg (lit ''songId'') \<noteq> None"
    by (intro nonempty_cell_has_column [of row]) simp
  moreover from row(3) have "hg (lit ''term'') \<noteq> None"
    by (rule nonempty_cell_has_column)
  moreover from row(4) have "hg (lit ''definition'') \<noteq> None"
    by (rule nonempty_cell_has_column)
  ultimately have "check_cols (lit ''glossary'') hg
      [lit ''songId'', lit ''term'', lit ''definition''] = Inr ()"
    by (intro check_cols_ok) simp
  then show ?thesis
    using assms(1,2) glossary_loop_unknown [OF assms(3) assms(4) assms(5) assms(6), of post]
    by (auto simp: glossary_stage_def and_then_def)
qed

text \<open>In a workbook that builds, every non-empty row of the versions and of the glossary
  sheet refers to a song of the songs sheet.\<close>

lemma built_has_no_unknown_reference:
  assumes "build_songs L (Some wb) = Inr (cv, base, songs)"
    and "map_of wb (lit ''songs'') = Some ws_songs"
    and "songs_stage ws_songs = Inr songs_by_id"
    and "map_of wb (lit ''versions'') = Some ws_versions"
    and "sheet_headers ws_versions = Inr hv"
    and "map_of wb (lit ''glossary'') = Some ws_glossary"
    and "sheet_headers ws_glossary = Inr hg"
    and "\<not> blank_row row"
  shows "row \<in> set (drop 1 ws_versions) \<Longrightarrow>
           dict_has songs_by_id (py_s (get_cell row hv (lit ''songId'')))"
    and "row \<in> set (drop 1 ws_glossary) \<Longrightarrow>
           dict_has songs_by_id (py_s (get_cell row hg (lit ''songId'')))"
proof -
  obtain parsed with_versions with_glossary
    where s1: "songs_stage ws_songs = Inr parsed"
      and s2': "versions_stage ws_versions parsed = Inr with_versions"
      and s3: "glossary_stage L ws_glossary with_versions = Inr with_glossary"
      and "songs = sorted_songs with_glossary"
    by (rule build_songs_stages [OF assms(1) assms(2) assms(4) assms(6)])
  from s1 have same: "parsed = songs_by_id" unfolding assms(3) by simp
  from s2' have s2: "versions_stage ws_versions songs_by_id = Inr with_versions"
    unfolding same .
  from versions_stage_Inr [OF s2] assms(5)
  have "versions_loop hv 2 (drop 1 ws_versions) songs_by_id Map.empty = Inr with_versions"
    by auto
  note v = versions_loop_Inr [OF this, THEN conjunct1]
    versions_loop_Inr [OF this, THEN conjunct2, THEN conjunct2, rule_format]
  from glossary_stage_Inr [OF s3] assms(7)
  have "glossary_loop L hg 2 (drop 1 ws_glossary) with_versions Map.empty = Inr with_glossary"
    by auto
  note g = glossary_loop_Inr [OF this, THEN conjunct2, THEN conjunct2, rule_format]
  show "dict_has songs_by_id (py_s (get_cell row hv (lit ''songId'')))"
    if "row \<in> set (drop 1 ws_versions)"
    using that assms(8) by (rule v(2))
  show "dict_has songs_by_id (py_s (get_cell row hg (lit ''songId'')))"
    if "row \<in> set (drop 1 ws_glossary)"
  proof -
    from that assms(8) have "dict_has with_versions (py_s (get_cell row hg (lit ''songId'')))"
      by (rule g)
    with v(1) show ?thesis by (simp add: dict_has_def)
  qed
qed

text \<open>
  Claim C6, as stated, fails: in this workbook the only data row of the versions sheet
  is not empty and refers to the song \<^verbatim>\<open>c\<close>, which the songs sheet (songs \<^verbatim>\<open>b\<close> and \<^verbatim>\<open>a\<close>)
  does not have; the row has no version id, and the run ends with the error of the
  empty id, raised by the row validator before the reference is looked up, not with
  the unknown-reference error.
\<close>

theorem unknown_reference_with_empty_id:
  "\<not> blank_row (cells [''c'', [], [], ''c1.mp3'']) \<and>
   py_s (get_cell (cells [''c'', [], [], ''c1.mp3''])
     (enum_headers 0 (hd blank_id_versions_sheet) Map.empty) (lit ''songId'')) = lit ''c'' \<and>
   songs_stage sample_songs_sheet = Inr sample_songs_by_id \<and>
   map fst sample_songs_by_id = [lit ''b'', lit ''a''] \<and>
   main sample_lib lax_env (Some blank_id_workbook) no_files =
     (Inl (SystemExit (lit ''ERROR: versions: empty id for songId=c'')), no_files)"
  by (simp add: main_def build_songs_def blank_id_workbook_def sample_songs_sheet_def
        blank_id_versions_sheet_def sample_glossary_sheet_def wb_sheet_def read_catalog_meta_def
        read_meta_def songs_stage_def versions_stage_def sheet_headers_def
        build_song_dict_def build_version_dict_def sample_songs_by_id_def
        sample_lib_def ascii_int_def sample_songs_def default_language_tag_def
        eval_cells del: lit_eq_iff lit_Nil_iff lit_append lit_append_assoc)

lemma main_versions_unknown:
  assumes "map_of wb (lit ''meta'') = Some ws_meta"
    and "read_catalog_meta L ws_meta = Inr (cv, base)"
    and "map_of wb (lit ''songs'') = Some ws_songs"
    and "songs_stage ws_songs = Inr songs_by_id"
    and "map_of wb (lit ''versions'') = Some ws_versions"
    and "map_of wb (lit ''glossary'') = Some ws_glossary"
    and "sheet_headers ws_versions = Inr hv"
    and "drop 1 ws_versions = pre @ row # post"
    and "versions_loop hv 2 pre songs_by_id Map.empty = Inr passed"
    and "\<not> blank_row row"
    and "build_version_dict row hv = Inr (song_id, ver)"
    and "\<not> dict_has songs_by_id song_id"
  shows "main L E (Some wb) fs =
           (py_fail (lit ''versions: unknown songId '' @ apos @ song_id @ apos @
                     lit '' (row '' @ str_nat (2 + length pre) @ lit '')''), fs)"
proof -
  note stage = versions_stage_unknown [OF assms(7) assms(8) assms(9) assms(10) assms(11) assms(12)]
  have "build_songs L (Some wb) =
          py_fail (lit ''versions: unknown songId '' @ apos @ song_id @ apos @
                   lit '' (row '' @ str_nat (2 + length pre) @ lit '')'')"
    unfolding build_songs_after_songs [OF assms(1) assms(2) assms(3) assms(4) assms(5) assms(6)]
      stage
    by (simp add: and_then_def py_fail_def)
  then show ?thesis
    unfolding py_fail_def by (rule main_build_error)
qed

lemma main_glossary_unknown:
  assumes "map_of wb (lit ''meta'') = Some ws_meta"
    and "read_catalog_meta L ws_meta = Inr (cv, base)"
    and "map_of wb (lit ''songs'') = Some ws_songs"
    and "songs_stage ws_songs = Inr songs_by_id"
    and "map_of wb (lit ''versions'') = Some ws_versions"
    and "map_of wb (lit ''glossary'') = Some ws_glossary"
    and "versions_stage ws_versions songs_by_id = Inr with_versions"
    and "sheet_headers ws_glossary = Inr hg"
    and "drop 1 ws_glossary = pre @ row # post"
    and "glossary_loop L hg 2 pre with_versions Map.empty = Inr passed"
    and "\<not> blank_row row"
    and "build_glossary_item row hg = Inr (song_id, item)"
    and "\<not> dict_has songs_by_id song_id"
  shows "main L E (Some wb) fs =
           (py_fail (lit ''glossary: unknown songId '' @ apos @ song_id @ apos @
                     lit '' (row '' @ str_nat (2 + length pre) @ lit '')''), fs)"
proof -
  from versions_stage_Inr [OF assms(7)] obtain hv
    where "versions_loop hv 2 (drop 1 ws_versions) songs_by_id Map.empty = Inr with_versions"
    by blast
  from versions_loop_Inr [OF this, THEN conjunct1] assms(13)
  have "\<not> dict_has with_versions song_id"
    by (simp add: dict_has_def)
  note stage = glossary_stage_unknown [OF assms(8) assms(9) assms(10) assms(11) assms(12) this]
  have "build_songs L (Some wb) =
          py_fail (lit ''glossary: unknown songId '' @ apos @ song_id @ apos @
                   lit '' (row '' @ str_nat (2 + length pre) @ lit '')'')"
    by (simp add: build_songs_after_songs [OF assms(1) assms(2) assms(3) assms(4) assms(5) assms(6)]
          assms(7) stage and_then_def py_fail_def)
  then show ?thesis
    unfolding py_fail_def by (rule main_build_error)
qed

text \<open>
  Claim C6, amended. Let the songs sheet be valid, and let a non-empty row of the
  versions sheet or of the glossary sheet have a \<^verbatim>\<open>songId\<close> that is the id of no song.
  Then the run ends in an error and writes nothing; the reference is never let through.
  The error is the unknown-reference error of that row, with the \<^verbatim>\<open>songId\<close> and the
  1-based row number, whenever the meta sheet is valid, the rows before it pass (for a
  glossary row: the whole versions sheet as well) and the row validator accepts the
  row; otherwise the run has ended with the error of that earlier check.
\<close>

theorem unknown_song_reference_is_fatal:
  assumes "map_of wb (lit ''songs'') = Some ws_songs"
    and "songs_stage ws_songs = Inr songs_by_id"
    and "map_of wb (lit ''versions'') = Some ws_versions"
    and "sheet_headers ws_versions = Inr hv"
    and "map_of wb (lit ''glossary'') = Some ws_glossary"
    and "sheet_headers ws_glossary = Inr hg"
    and "\<not> blank_row row"
    and "row \<in> set (drop 1 ws_versions) \<and>
           \<not> dict_has songs_by_id (py_s (get_cell row hv (lit ''songId''))) \<or>
         row \<in> set (drop 1 ws_glossary) \<and>
           \<not> dict_has songs_by_id (py_s (get_cell row hg (lit ''songId'')))"
  shows "(\<exists>e. main L E (Some wb) fs = (Inl e, fs)) \<and>
         (\<forall>ws_meta cv base pre post song_id ver passed.
            map_of wb (lit ''meta'') = Some ws_meta \<and>
            read_catalog_meta L ws_meta = Inr (cv, base) \<and>
            drop 1 ws_versions = pre @ row # post \<and>
            versions_loop hv 2 pre songs_by_id Map.empty = Inr passed \<and>
            build_version_dict row hv = Inr (song_id, ver) \<and>
            \<not> dict_has songs_by_id song_id \<longrightarrow>
            main L E (Some wb) fs =
              (py_fail (lit ''versions: unknown songId '' @ apos @ song_id @ apos @
                        lit '' (row '' @ str_nat (2 + length pre) @ lit '')''), fs)) \<and>
         (\<forall>ws_meta cv base with_versions pre post song_id item passed.
            map_of wb (lit ''meta'') = Some ws_meta \<and>
            read_catalog_meta L ws_meta = Inr (cv, base) \<and>
            versions_stage ws_versions songs_by_id = Inr with_versions \<and>
            drop 1 ws_glossary = pre @ row # post \<and>
            glossary_loop L hg 2 pre with_versions Map.empty = Inr passed \<and>
            build_glossary_item row hg = Inr (song_id, item) \<and>
            \<not> dict_has songs_by_id song_id \<longrightarrow>
            main L E (Some wb) fs =
              (py_fail (lit ''glossary: unknown songId '' @ apos @ song_id @ apos @
                        lit '' (row '' @ str_nat (2 + length pre) @ lit '')''), fs))"
proof (intro conjI allI impI)
  show "\<exists>e. main L E (Some wb) fs = (Inl e, fs)"
  proof (cases "build_songs L (Some wb)")
    case (Inl e)
    then have "main L E (Some wb) fs = (Inl e, fs)" by (rule main_build_error)
    then show ?thesis by blast
  next
    case (Inr result)
    then obtain cv base songs where "build_songs L (Some wb) = Inr (cv, base, songs)"
      by (cases result) auto
    from built_has_no_unknown_reference
      [OF this assms(1) assms(2) assms(3) assms(4) assms(5) assms(6) assms(7)] assms(8)
    show ?thesis by blast
  qed
next
  fix ws_meta cv base pre post song_id ver passed
  assume "map_of wb (lit ''meta'') = Some ws_meta \<and>
            read_catalog_meta L ws_meta = Inr (cv, base) \<and>
            drop 1 ws_versions = pre @ row # post \<and>
            versions_loop hv 2 pre songs_by_id Map.empty = Inr passed \<and>
            build_version_dict row hv = Inr (song_id, ver) \<and>
            \<not> dict_has songs_by_id song_id"
  then have c: "map_of wb (lit ''meta'') = Some ws_meta"
      "read_catalog_meta L ws_meta = Inr (cv, base)"
      "drop 1 ws_versions = pre @ row # post"
      "versions_loop hv 2 pre songs_by_id Map.empty = Inr passed"
      "build_version_dict row hv = Inr (song_id, ver)"
      "\<not> dict_has songs_by_id song_id"
    by blast+
  show "main L E (Some wb) fs =
              (py_fail (lit ''versions: unknown songId '' @ apos @ song_id @ apos @
                        lit '' (row '' @ str_nat (2 + length pre) @ lit '')''), fs)"
    by (rule main_versions_unknown
        [OF c(1) c(2) assms(1) assms(2) assms(3) assms(5) assms(4) c(3) c(4) assms(7) c(5) c(6)])
next
  fix ws_meta cv base with_versions pre post song_id item passed
  assume "map_of wb (lit ''meta'') = Some ws_meta \<and>
            read_catalog_meta L ws_meta = Inr (cv, base) \<and>
            versions_stage ws_versions songs_by_id = Inr with_versions \<and>
            drop 1 ws_glossary = pre @ row # post \<and>
            glossary_loop L hg 2 pre with_versions Map.empty = Inr passed \<and>
            build_glossary_item row hg = Inr (song_id, item) \<and>
            \<not> dict_has songs_by_id song_id"
  then have c: "map_of wb (lit ''meta'') = Some ws_meta"
      "read_catalog_meta L ws_meta = Inr (cv, base)"
      "versions_stage ws_versions songs_by_id = Inr with_versions"
      "drop 1 ws_glossary = pre @ row # post"
      "glossary_loop L hg 2 pre with_versions Map.empty = Inr passed"
      "build_glossary_item row hg = Inr (song_id, item)"
      "\<not> dict_has songs_by_id song_id"
    by blast+
  show "main L E (Some wb) fs =
              (py_fail (lit ''glossary: unknown songId '' @ apos @ song_id @ apos @
                        lit '' (row '' @ str_nat (2 + length pre) @ lit '')''), fs)"
    by (rule main_glossary_unknown
        [OF c(1) c(2) assms(1) assms(2) assms(3) assms(5) c(3) assms(6) c(4) c(5) assms(7)
          c(6) c(7)])
qed

lemma sample_meta:
  "read_catalog_meta sample_lib
     [cells [''catalogVersion'', ''1''], cells [''baseMediaUrl'', ''https://m/'']] =
   Inr (1, lit ''https://m/'')"
  by (simp add: read_catalog_meta_def read_meta_def sample_lib_def ascii_int_def eval_cells
        del: lit_eq_iff lit_Nil_iff lit_append lit_append_assoc)

lemma sample_songs_stage: "songs_stage sample_songs_sheet = Inr sample_songs_by_id"
  by (simp add: songs_stage_def sample_songs_sheet_def sheet_headers_def build_song_dict_def
        sample_songs_by_id_def sample_songs_def default_language_tag_def eval_cells
        del: lit_eq_iff lit_Nil_iff lit_append lit_append_assoc)

lemma unknown_ref_lookup:
  "map_of unknown_ref_workbook (lit ''meta'') =
     Some [cells [''catalogVersion'', ''1''], cells [''baseMediaUrl'', ''https://m/'']]"
  "map_of unknown_ref_workbook (lit ''songs'') = Some sample_songs_sheet"
  "map_of unknown_ref_workbook (lit ''versions'') = Some unknown_ref_versions_sheet"
  "map_of unknown_ref_workbook (lit ''glossary'') = Some sample_glossary_sheet"
  by (simp_all add: unknown_ref_workbook_def)

lemma unknown_ref_headers:
  "sheet_headers unknown_ref_versions_sheet =
     Inr (enum_headers 0 (hd unknown_ref_versions_sheet) Map.empty)"
  by (simp add: sheet_headers_def unknown_ref_versions_sheet_def)

lemma unknown_ref_rows:
  "drop 1 unknown_ref_versions_sheet =
     [cells [''a'', ''v1'', [], ''a1.mp3'']] @ cells [''c'', ''v9'', [], []] # []"
  by (simp add: unknown_ref_versions_sheet_def)

lemma unknown_ref_row:
  "\<not> blank_row (cells [''c'', ''v9'', [], []])"
  "build_version_dict (cells [''c'', ''v9'', [], []])
     (enum_headers 0 (hd unknown_ref_versions_sheet) Map.empty) =
     Inr (lit ''c'', [(lit ''id'', JStr (lit ''v9''))])"
  "py_s (get_cell (cells [''c'', ''v9'', [], []])
     (enum_headers 0 (hd unknown_ref_versions_sheet) Map.empty) (lit ''songId'')) = lit ''c''"
  by (simp_all add: unknown_ref_versions_sheet_def build_version_dict_def version_opt_keys_def
        eval_cells del: lit_eq_iff lit_Nil_iff lit_append lit_append_assoc)

lemma unknown_ref_not_a_song: "\<not> dict_has sample_songs_by_id (lit ''c'')"
  by (simp add: sample_songs_by_id_def dict_has_def)

lemma unknown_ref_first_row_passes:
  "\<exists>passed. versions_loop (enum_headers 0 (hd unknown_ref_versions_sheet) Map.empty) 2
      [cells [''a'', ''v1'', [], ''a1.mp3'']] sample_songs_by_id Map.empty = Inr passed"
  by (simp add: unknown_ref_versions_sheet_def build_version_dict_def version_opt_keys_def
        append_child_def seen_of_def sample_songs_by_id_def sample_songs_def
        default_language_tag_def eval_cells
        del: lit_eq_iff lit_Nil_iff lit_append lit_append_assoc)

theorem unknown_song_reference_is_fatal_witness:
  "songs_stage sample_songs_sheet = Inr sample_songs_by_id \<and>
   cells [''c'', ''v9'', [], []] \<in> set (drop 1 unknown_ref_versions_sheet) \<and>
   \<not> dict_has sample_songs_by_id (lit ''c'') \<and>
   main sample_lib lax_env (Some unknown_ref_workbook) no_files =
     (Inl (SystemExit (lit ''ERROR: versions: unknown songId '' @ apos @ lit ''c'' @ apos @
                       lit '' (row 3)'')), no_files)"
proof -
  let ?hv = "enum_headers 0 (hd unknown_ref_versions_sheet) Map.empty"
  let ?row = "cells [''c'', ''v9'', [], []]"
  have member: "?row \<in> set (drop 1 unknown_ref_versions_sheet)"
    unfolding unknown_ref_rows by simp
  from member unknown_ref_row(3) unknown_ref_not_a_song
  have unknown: "?row \<in> set (drop 1 unknown_ref_versions_sheet) \<and>
           \<not> dict_has sample_songs_by_id (py_s (get_cell ?row ?hv (lit ''songId''))) \<or>
         ?row \<in> set (drop 1 sample_glossary_sheet) \<and>
           \<not> dict_has sample_songs_by_id
               (py_s (get_cell ?row (enum_headers 0 (hd sample_glossary_sheet) Map.empty)
                  (lit ''songId'')))"
    by simp
  from unknown_ref_first_row_passes obtain passed
    where passed: "versions_loop ?hv 2 [cells [''a'', ''v1'', [], ''a1.mp3'']]
        sample_songs_by_id Map.empty = Inr passed"
    by blast
  have row_number: "str_nat (2 + length [cells [''a'', ''v1'', [], ''a1.mp3'']]) = lit ''3''"
    by (simp add: str_nat.simps lit_def)
  note general = unknown_song_reference_is_fatal
    [OF unknown_ref_lookup(2) sample_songs_stage unknown_ref_lookup(3) unknown_ref_headers
      unknown_ref_lookup(4) sample_headers(3) unknown_ref_row(1) unknown,
      where L = sample_lib and E = lax_env and fs = no_files]
  note first = general [THEN conjunct2, THEN conjunct1, rule_format,
      where pre = "[cells [''a'', ''v1'', [], ''a1.mp3'']]" and post = "[]"]
  from unknown_ref_lookup(1) sample_meta unknown_ref_rows passed unknown_ref_row(2)
    unknown_ref_not_a_song
  have "main sample_lib lax_env (Some unknown_ref_workbook) no_files =
     (py_fail (lit ''versions: unknown songId '' @ apos @ lit ''c'' @ apos @
               lit '' (row '' @ str_nat (2 + length [cells [''a'', ''v1'', [], ''a1.mp3'']]) @
               lit '')''), no_files)"
    by (intro first conjI)
  then have "main sample_lib lax_env (Some unknown_ref_workbook) no_files =
     (Inl (SystemExit (lit ''ERROR: versions: unknown songId '' @ apos @ lit ''c'' @ apos @
                       lit '' (row 3)'')), no_files)"
    unfolding row_number by (simp add: py_fail_def apos_def lit_def)
  with sample_songs_stage member unknown_ref_not_a_song show ?thesis by blast
qed

section \<open>Further properties of a run\<close>

text \<open>
  Publishing twice. When the library parses back the two documents a run has written,
  and serialises the parsed catalog again, a second run on the same input over the files
  of the first passes the gate in either mode, with the version unchanged, and writes
  the same catalog bytes again.
\<close>

theorem rerun_passes_gate:
  assumes "build_songs L inp = Inr (cv, base, songs)"
    and "json_loads L (json_dumps L (JArr (map JObj songs))) = Inr (JArr (map JObj songs))"
    and "json_loads L (json_dumps L (JObj (manifest cv (now_iso_utc E1) base))) =
           Inr (JObj (manifest cv (now_iso_utc E1) base))"
    and "dumps_error L (JArr (map JObj songs)) = None"
  shows "main L E2 inp (write_outputs L E1 fs (json_dumps L (JArr (map JObj songs))) cv base) =
           (Inr (),
            write_outputs L E2
              (write_outputs L E1 fs (json_dumps L (JArr (map JObj songs))) cv base)
              (json_dumps L (JArr (map JObj songs))) cv base)"
proof -
  have manifest: "parse_old_manifest L (json_dumps L (JObj (manifest cv (now_iso_utc E1) base))) =
      Inr (cv, strip base)"
    unfolding parse_old_manifest_def assms(3)
    by (simp add: manifest_def py_int_def py_str_def)
  have catalog: "songs_changed L (Some (json_dumps L (JArr (map JObj songs))))
      (json_dumps L (JArr (map JObj songs))) = Inr False"
    unfolding songs_changed_def by (simp add: assms(2) assms(4))
  show ?thesis
    by (simp add: main_def assms(1) strict_gate_def write_outputs_files manifest catalog
          and_then_def)
qed

theorem rerun_passes_gate_witness:
  "main sample_lib strict_env (Some sample_workbook) published_files =
     (Inr (),
      write_outputs sample_lib strict_env published_files
        (json_dumps sample_lib (JArr (map JObj sample_songs))) 1 (lit ''https://m/''))"
proof -
  have time: "now_iso_utc lax_env = sample_time"
    by (simp add: lax_env_def)
  from rerun_passes_gate [of sample_lib "Some sample_workbook" 1 "lit ''https://m/''"
      sample_songs lax_env strict_env no_files]
    sample_build sample_loads_songs sample_loads_manifest sample_dumps_ok(2)
  show ?thesis
    by (simp add: time published_files_def)
qed

text \<open>
  Without the strict mode, or without an old manifest, nothing is compared: a valid
  workbook is always written.
\<close>

theorem permissive_run_writes:
  assumes "\<not> strict_mode L E \<or> docs_latest fs = None"
    and "build_songs L inp = Inr (cv, base, songs)"
  shows "main L E inp fs =
           (Inr (), write_outputs L E fs (json_dumps L (JArr (map JObj songs))) cv base)"
  using assms
  by (auto simp: main_def strict_gate_def split: option.splits)

theorem permissive_run_writes_witness:
  "docs_latest no_files = None \<and>
   main sample_lib strict_env (Some sample_workbook) no_files =
     (Inr (),
      write_outputs sample_lib strict_env no_files
        (json_dumps sample_lib (JArr (map JObj sample_songs))) 1 (lit ''https://m/''))"
proof -
  have none: "docs_latest no_files = None"
    by (simp add: no_files_def)
  then have "\<not> strict_mode sample_lib strict_env \<or> docs_latest no_files = None"
    by simp
  from permissive_run_writes [OF this sample_build] none show ?thesis
    by simp
qed

text \<open>
  A workbook that has the sheets \<^verbatim>\<open>meta\<close>, \<^verbatim>\<open>songs\<close> and \<^verbatim>\<open>versions\<close> but no sheet
  \<^verbatim>\<open>glossary\<close> ends the run with the message that names the missing sheet, whatever
  the other sheets hold.
\<close>

theorem missing_glossary_sheet_is_fatal:
  assumes "map_of wb (lit ''meta'') = Some ws_meta"
    and "map_of wb (lit ''songs'') = Some ws_songs"
    and "map_of wb (lit ''versions'') = Some ws_versions"
    and "map_of wb (lit ''glossary'') = None"
  shows "main L E (Some wb) fs =
           (py_fail (lit ''Missing sheet '' @ apos @ lit ''glossary'' @ apos @
                     lit '' in input/istoki.xlsx''), fs)"
proof -
  have "build_songs L (Some wb) =
          py_fail (lit ''Missing sheet '' @ apos @ lit ''glossary'' @ apos @
                   lit '' in input/istoki.xlsx'')"
    using assms
    by (simp add: build_songs_def dict_has_iff and_then_def py_fail_def
          del: lit_append lit_append_assoc)
  then show ?thesis
    unfolding py_fail_def by (rule main_build_error)
qed

theorem missing_glossary_sheet_is_fatal_witness:
  "main sample_lib lax_env (Some (take 3 sample_workbook)) no_files =
     (Inl (SystemExit (lit ''ERROR: Missing sheet '' @ apos @ lit ''glossary'' @ apos @
                       lit '' in input/istoki.xlsx'')), no_files)"
proof -
  have sheets: "map_of (take 3 sample_workbook) (lit ''meta'') =
        Some [cells [''catalogVersion'', ''1''], cells [''baseMediaUrl'', ''https://m/'']]"
      "map_of (take 3 sample_workbook) (lit ''songs'') = Some sample_songs_sheet"
      "map_of (take 3 sample_workbook) (lit ''versions'') = Some sample_versions_sheet"
      "map_of (take 3 sample_workbook) (lit ''glossary'') = None"
    by (simp_all add: sample_workbook_def)
  from missing_glossary_sheet_is_fatal [OF sheets, of sample_lib lax_env no_files]
  show ?thesis
    by (simp add: py_fail_def)
qed

end
